theory Spec2Isabelle
  imports Main
begin

section \<open>Python values\<close>

text \<open>
  A Python \<^verbatim>\<open>str\<close> is a sequence of Unicode code points, so slicing and
  emptiness count code points. String literals of the source that are not ASCII are
  written out as their code points; ASCII literals go through \<open>S\<close>.
\<close>

type_synonym pystr = "nat list"

definition S :: "string \<Rightarrow> pystr" where
  "S cs = map of_char cs"

text \<open>Truthiness of \<^verbatim>\<open>str | None\<close> and \<^verbatim>\<open>int | None\<close> values.\<close>

fun truthy_str :: "pystr option \<Rightarrow> bool" where
  "truthy_str None = False"
| "truthy_str (Some s) = (s \<noteq> [])"

fun truthy_int :: "int option \<Rightarrow> bool" where
  "truthy_int None = False"
| "truthy_int (Some n) = (n \<noteq> 0)"

text \<open>\<^verbatim>\<open>a or b\<close> on an optional string with a string default.\<close>

fun or_str :: "pystr option \<Rightarrow> pystr \<Rightarrow> pystr" where
  "or_str None d = d"
| "or_str (Some s) d = (if s \<noteq> [] then s else d)"

text \<open>\<^verbatim>\<open>str(n)\<close> for an integer: decimal digits, with a minus sign.\<close>

fun digits :: "nat \<Rightarrow> pystr" where
  "digits n = (if n < 10 then [48 + n] else digits (n div 10) @ [48 + n mod 10])"

definition str_int :: "int \<Rightarrow> pystr" where
  "str_int i = (if i < 0 then 45 # digits (nat (- i)) else digits (nat i))"

text \<open>
  Exceptions carry their class and message; \<^verbatim>\<open>str(e)\<close> is the message, which
  may be empty.
\<close>

datatype exn = ValueError pystr | CalledProcessError pystr | Exception pystr

fun str_exn :: "exn \<Rightarrow> pystr" where
  "str_exn (ValueError m) = m"
| "str_exn (CalledProcessError m) = m"
| "str_exn (Exception m) = m"

section \<open>Step results (skills/base.py)\<close>

datatype SkillStatus = SUCCESS | FAILED | PENDING

record 'a SkillResult =
  sr_status :: SkillStatus
  sr_data :: "'a option"
  sr_error :: "pystr option"

definition SkillResult_success :: "'a \<Rightarrow> 'a SkillResult" where
  "SkillResult_success d = \<lparr>sr_status = SUCCESS, sr_data = Some d, sr_error = None\<rparr>"

definition SkillResult_failed :: "pystr \<Rightarrow> 'a SkillResult" where
  "SkillResult_failed m = \<lparr>sr_status = FAILED, sr_data = None, sr_error = Some m\<rparr>"

definition is_success :: "'a SkillResult \<Rightarrow> bool" where
  "is_success r = (sr_status r = SUCCESS)"

section \<open>Data model (models.py, config.py)\<close>

record Story =
  s_title :: pystr
  s_dish :: pystr
  s_summary :: pystr
  s_story :: pystr
  s_cooking_steps :: "pystr list"
  s_video_prompts :: "pystr list"
  s_tags :: "pystr list"
  s_description :: pystr
  s_episode :: "int option"
  s_date :: "pystr option"

record StoryHistoryEntry =
  h_episode :: int
  h_date :: pystr
  h_title :: pystr
  h_dish :: pystr
  h_summary :: pystr
  h_story :: pystr
  h_cooking_steps :: "pystr list"
  h_video_prompts :: "pystr list"
  h_tags :: "pystr list"
  h_description :: pystr

record VideoGenerationResult =
  vr_video_url :: "pystr option"
  vr_operation_id :: "pystr option"
  vr_status :: pystr
  vr_file_path :: "pystr option"
  vr_mock :: bool

record YouTubeUploadResult =
  yu_video_id :: pystr
  yu_url :: pystr
  yu_title :: pystr

record WorkflowState =
  episode_number :: "int option"
  privacy_status :: pystr
  story :: "Story option"
  story_history :: "StoryHistoryEntry list"
  story_id :: "int option"
  video_segments :: "VideoGenerationResult list"
  final_video_path :: "pystr option"
  video_generation_id :: "int option"
  upload_result :: "YouTubeUploadResult option"
  youtube_upload_id :: "int option"
  error :: "pystr option"
  current_step :: pystr
  timestamp :: "pystr option"
  execution_id :: "int option"

text \<open>
  The fields of the global \<^verbatim>\<open>settings\<close> object that the pipeline reads.
  \<open>output_dir\<close> stands for \<^verbatim>\<open>str(settings.output_dir)\<close>.
\<close>

record Settings =
  main_character_name :: pystr
  skip_video_generation :: bool
  test_video_path :: pystr
  output_dir :: pystr

section \<open>Execution ledger rows (db_models.py)\<close>

text \<open>
  A \<^verbatim>\<open>datetime\<close>: the wall-clock reading in microseconds and, when the
  value is timezone-aware, the offset of its zone from UTC in microseconds.
\<close>

record datetime =
  wall :: int
  tzinfo :: "int option"

record WorkflowExecution =
  we_episode_number :: "int option"
  we_status :: pystr
  we_current_step :: "pystr option"
  we_story_id :: "int option"
  we_video_generation_id :: "int option"
  we_youtube_upload_id :: "int option"
  we_error_message :: "pystr option"
  we_started_at :: "datetime option"
  we_completed_at :: "datetime option"
  we_duration_seconds :: "int option"

section \<open>The environment: external calls and their outcomes\<close>

text \<open>The state of a long-running render operation of the video service.\<close>

record operation =
  op_done :: bool
  op_has_video :: bool

text \<open>
  Every call that leaves the program is logged as an event. \<open>ENode\<close> is the
  progress line a workflow node prints when it is entered.
\<close>

datatype event =
    ENode pystr
  | EGetLatest nat
  | EStoryCreate Story int
  | ECommit
  | ERollback
  | EGenerateContent int
  | EVeoGenerate pystr int
  | EVeoPoll
  | EVeoDownload
  | EVeoSave pystr
  | EWriteFileList pystr
  | EFfmpeg "pystr list"
  | EUnlink
  | EVideoCreate int pystr
  | EVideoUpdate int "pystr option" "pystr option" "pystr option"
  | EUpload pystr pystr pystr "pystr list" pystr
  | EUploadCreate int pystr pystr pystr "int option" pystr
  | EHistoryFileRead
  | EHistoryFileWrite "StoryHistoryEntry list"

text \<open>
  The world answers each external call; the answer may depend on the moment of the
  call, which is the number of events logged so far. \<open>Inl\<close> is a raised exception.
  \<open>parse_json\<close> stands for the library calls of the response parser (regular
  expression search, JSON decoding and validation of the fields): \<open>None\<close> when
  there is no match or any of them raises. \<open>poll_fuel\<close> bounds the polling loop
  of the model: a render operation that is still not done after that many polls counts
  as never finishing.
\<close>

record world =
  db_get_latest :: "nat \<Rightarrow> exn + StoryHistoryEntry list"
  db_story_create :: "nat \<Rightarrow> exn + int"
  db_commit :: "nat \<Rightarrow> exn + unit"
  db_rollback :: "nat \<Rightarrow> exn + unit"
  gemini :: "nat \<Rightarrow> exn + pystr option"
  parse_json :: "pystr \<Rightarrow> Story option"
  now_iso :: "nat \<Rightarrow> pystr"
  time_time :: "nat \<Rightarrow> int"
  veo_generate :: "nat \<Rightarrow> exn + operation"
  veo_get :: "nat \<Rightarrow> exn + operation"
  veo_download :: "nat \<Rightarrow> exn + unit"
  veo_save :: "nat \<Rightarrow> exn + unit"
  poll_fuel :: nat
  fs_write :: "nat \<Rightarrow> exn + unit"
  ffmpeg :: "nat \<Rightarrow> exn + unit"
  fs_unlink :: "nat \<Rightarrow> exn + unit"
  db_video_create :: "nat \<Rightarrow> exn + int"
  db_video_update :: "nat \<Rightarrow> exn + unit"
  yt_upload :: "nat \<Rightarrow> exn + YouTubeUploadResult"
  db_upload_create :: "nat \<Rightarrow> exn + int"
  history_file_read :: "nat \<Rightarrow> exn + StoryHistoryEntry list option"
  history_file_write :: "nat \<Rightarrow> exn + unit"
  db_now :: "nat \<Rightarrow> datetime"
  utc_now :: "nat \<Rightarrow> int"

text \<open>
  The program state outside the workflow state: the event log, the generator's
  \<^verbatim>\<open>story_history\<close> attribute and the rows of the ledger table as the
  session sees them.
\<close>

record sys =
  trace :: "event list"
  gen_story_history :: "StoryHistoryEntry list"
  executions :: "(int \<times> WorkflowExecution) list"

text \<open>
  A computation returns a value, raises, or never returns; it also leaves a state.
\<close>

datatype 'a outcome = Ret 'a | Raise exn | Diverge

type_synonym 'a io = "sys \<Rightarrow> 'a outcome \<times> sys"

definition ret :: "'a \<Rightarrow> 'a io" where
  "ret x = (\<lambda>s. (Ret x, s))"

definition raise :: "exn \<Rightarrow> 'a io" where
  "raise e = (\<lambda>s. (Raise e, s))"

definition bind :: "'a io \<Rightarrow> ('a \<Rightarrow> 'b io) \<Rightarrow> 'b io" where
  "bind m f = (\<lambda>s. case m s of
      (Ret x, s') \<Rightarrow> f x s'
    | (Raise e, s') \<Rightarrow> (Raise e, s')
    | (Diverge, s') \<Rightarrow> (Diverge, s'))"

text \<open>\<^verbatim>\<open>try: m except Exception as e: h e\<close>\<close>

definition try_except :: "'a io \<Rightarrow> (exn \<Rightarrow> 'a io) \<Rightarrow> 'a io" where
  "try_except m h = (\<lambda>s. case m s of
      (Raise e, s') \<Rightarrow> h e s'
    | r \<Rightarrow> r)"

definition now :: "sys \<Rightarrow> nat" where
  "now s = length (trace s)"

definition log :: "event \<Rightarrow> sys \<Rightarrow> sys" where
  "log ev s = s\<lparr>trace := trace s @ [ev]\<rparr>"

text \<open>
  The moment of a clock reading or of an external call: the number of events so far.
\<close>

definition diverge :: "'a io" where
  "diverge = (\<lambda>s. (Diverge, s))"

definition get_now :: "nat io" where
  "get_now = (\<lambda>s. (Ret (now s), s))"

text \<open>An external call: the world's answer at this moment, and the event logged.\<close>

definition call :: "event \<Rightarrow> (nat \<Rightarrow> exn + 'a) \<Rightarrow> 'a io" where
  "call ev answer = (\<lambda>s. (case answer (now s) of Inl e \<Rightarrow> Raise e | Inr x \<Rightarrow> Ret x, log ev s))"

section \<open>Story generator (story_generator.py)\<close>

fun or_int :: "int option \<Rightarrow> int \<Rightarrow> int" where
  "or_int None d = d"
| "or_int (Some n) d = (if n \<noteq> 0 then n else d)"

text \<open>
  The placeholder document of \<^verbatim>\<open>parse_story_response\<close>. The literals are, in
  order: the title prefix, the dish, the summary, the default narrative, the three
  cooking steps, the three prompt suffixes, the three tags and the default description.
\<close>

definition default_story :: "Settings \<Rightarrow> pystr option \<Rightarrow> int \<Rightarrow> pystr \<Rightarrow> Story" where
  "default_story cfg text episode stamp =
    \<lparr>s_title = [45341, 49900, 51060, 51032, 32, 50836, 47532, 32, 45, 32,
                 50640, 54588, 49548, 46300, 32] @ str_int episode,
     s_dish = [53945, 48324, 54620, 32, 50836, 47532],
     s_summary = [45341, 49900, 51060, 44032, 32, 50836, 47532, 47484, 32, 47564, 46300,
                  45716, 32, 44480, 50668, 50868, 32, 50689, 49345],
     s_story = (case text of
        Some t \<Rightarrow> if t \<noteq> [] then take 500 t
          else [45341, 49900, 51060, 44032, 32, 50836, 47532, 47484, 32, 47564, 46300,
                45716, 32, 49828, 53664, 47532]
      | None \<Rightarrow> [45341, 49900, 51060, 44032, 32, 50836, 47532, 47484, 32, 47564, 46300,
                45716, 32, 49828, 53664, 47532]),
     s_cooking_steps = [[51456, 48708], [50836, 47532], [50756, 49457]],
     s_video_prompts =
       [main_character_name cfg @ [44032, 32, 50836, 47532, 47484, 32, 51456, 48708,
                                    54616, 45716, 32, 47784, 49845],
        main_character_name cfg @ [44032, 32, 50836, 47532, 54616, 45716, 32, 47784, 49845],
        main_character_name cfg @ [44032, 32, 50756, 49457, 46108, 32, 50836, 47532, 47484,
                                    32, 48372, 50668, 51452, 45716, 32, 47784, 49845]],
     s_tags = [[50836, 47532], [46972, 53220], [49660, 52768]],
     s_description = (case text of
        Some t \<Rightarrow> if t \<noteq> [] then take 500 t
          else [45341, 49900, 51060, 51032, 32, 50836, 47532, 32, 50689, 49345]
      | None \<Rightarrow> [45341, 49900, 51060, 51032, 32, 50836, 47532, 32, 50689, 49345]),
     s_episode = Some episode,
     s_date = Some stamp\<rparr>"

text \<open>
  \<^verbatim>\<open>parse_story_response(text, episode)\<close>; \<open>stamp\<close> is
  \<^verbatim>\<open>datetime.now().isoformat()\<close>. A \<^verbatim>\<open>None\<close> text makes the search raise,
  which the handler swallows like every other failure of the \<^verbatim>\<open>try\<close> block.
\<close>

definition parse_story_response :: "world \<Rightarrow> Settings \<Rightarrow> pystr option \<Rightarrow> int \<Rightarrow> pystr \<Rightarrow> Story" where
  "parse_story_response w cfg text episode stamp =
    (case text of
       None \<Rightarrow> default_story cfg text episode stamp
     | Some t \<Rightarrow>
        (case parse_json w t of
           Some story_data \<Rightarrow> story_data\<lparr>s_episode := Some episode, s_date := Some stamp\<rparr>
         | None \<Rightarrow> default_story cfg text episode stamp))"

definition load_story_history :: "StoryHistoryEntry list \<Rightarrow> unit io" where
  "load_story_history history = (\<lambda>s. (Ret (), s\<lparr>gen_story_history := history\<rparr>))"

definition get_story_history :: "StoryHistoryEntry list io" where
  "get_story_history = (\<lambda>s. (Ret (gen_story_history s), s))"

definition history_entry :: "Story \<Rightarrow> int \<Rightarrow> pystr \<Rightarrow> StoryHistoryEntry" where
  "history_entry st ep stamp =
    \<lparr>h_episode = ep, h_date = or_str (s_date st) stamp, h_title = s_title st,
     h_dish = s_dish st, h_summary = s_summary st, h_story = s_story st,
     h_cooking_steps = s_cooking_steps st, h_video_prompts = s_video_prompts st,
     h_tags = s_tags st, h_description = s_description st\<rparr>"

text \<open>
  \<^verbatim>\<open>generate_story(episode_number)\<close>. The prompt text is not modelled; the event
  records the episode it is built for. The handler of the source prints and re-raises.
\<close>

definition generate_story :: "world \<Rightarrow> Settings \<Rightarrow> int option \<Rightarrow> Story io" where
  "generate_story w cfg episode_num =
    bind get_story_history (\<lambda>history0.
    let episode = or_int episode_num (int (length history0) + 1) in
    try_except
      (bind (call (EGenerateContent episode) (gemini w)) (\<lambda>text.
       bind get_now (\<lambda>t.
       let st = parse_story_response w cfg text episode (now_iso w t) in
       case s_episode st of
         None \<Rightarrow> raise (Exception (S ''validation error''))
       | Some ep \<Rightarrow>
          bind get_story_history (\<lambda>history.
          bind (load_story_history (history @ [history_entry st ep (now_iso w t)])) (\<lambda>_.
          ret st)))))
      (\<lambda>e. raise e))"

section \<open>Story skills (skills/story_skills.py)\<close>

text \<open>The f-string \<^verbatim>\<open>f"<prefix>{e}"\<close> of a skill's handler.\<close>

definition fmsg :: "string \<Rightarrow> exn \<Rightarrow> pystr" where
  "fmsg prefix e = S prefix @ str_exn e"

definition GenerateStorySkill_execute ::
    "world \<Rightarrow> Settings \<Rightarrow> int \<Rightarrow> StoryHistoryEntry list option \<Rightarrow> Story SkillResult io" where
  "GenerateStorySkill_execute w cfg episode_num history =
    try_except
      (bind (case history of
               Some (x # xs) \<Rightarrow> load_story_history (x # xs)
             | _ \<Rightarrow> ret ()) (\<lambda>_.
       bind (generate_story w cfg (Some episode_num)) (\<lambda>st.
       ret (SkillResult_success st))))
      (\<lambda>e. ret (SkillResult_failed (fmsg ''Story generation failed: '' e)))"

definition GetStoryHistorySkill_execute ::
    "world \<Rightarrow> nat \<Rightarrow> StoryHistoryEntry list SkillResult io" where
  "GetStoryHistorySkill_execute w limit =
    try_except
      (bind (call (EGetLatest limit) (db_get_latest w)) (\<lambda>history.
       ret (SkillResult_success history)))
      (\<lambda>e. ret (SkillResult_failed (fmsg ''Failed to get story history: '' e)))"

definition SaveStorySkill_execute :: "world \<Rightarrow> Story \<Rightarrow> int \<Rightarrow> int SkillResult io" where
  "SaveStorySkill_execute w st episode =
    try_except
      (bind (call (EStoryCreate st episode) (db_story_create w)) (\<lambda>db_story_id.
       bind (call ECommit (db_commit w)) (\<lambda>_.
       ret (SkillResult_success db_story_id))))
      (\<lambda>e. bind (call ERollback (db_rollback w)) (\<lambda>_.
            ret (SkillResult_failed (fmsg ''Failed to save story: '' e))))"

section \<open>Agents: the skill registry (agents/base.py)\<close>

text \<open>
  \<^verbatim>\<open>execute_skill\<close> looks the skill up by name and raises when it is not
  registered; \<open>registered\<close> is the list of names the agent's constructor registered.
\<close>

definition execute_skill :: "string list \<Rightarrow> string \<Rightarrow> 'a io \<Rightarrow> 'a io" where
  "execute_skill registered skill_name m =
    (if skill_name \<in> set registered then m
     else raise (ValueError (S ''Skill '' @ [39] @ S skill_name @ [39] @ S '' not found'')))"

text \<open>\<^verbatim>\<open>result.data if result.is_success else d\<close>\<close>

definition data_if_success :: "'a SkillResult \<Rightarrow> 'a option \<Rightarrow> 'a option" where
  "data_if_success r d = (if is_success r then sr_data r else d)"

section \<open>Story agent (agents/story_agent.py)\<close>

record StoryAgentResult =
  sa_story :: "Story option"
  sa_story_id :: "int option"
  sa_episode :: int
  sa_success :: bool
  sa_error :: "pystr option"

definition StoryAgent_skills :: "bool \<Rightarrow> string list" where
  "StoryAgent_skills db_session =
    [''generate_story''] @ (if db_session then [''get_story_history'', ''save_story''] else [])"

definition StoryAgent_get_history :: "world \<Rightarrow> bool \<Rightarrow> nat \<Rightarrow> StoryHistoryEntry list option io" where
  "StoryAgent_get_history w db_session limit =
    (if \<not> db_session then ret (Some [])
     else bind (execute_skill (StoryAgent_skills db_session) ''get_story_history''
                  (GetStoryHistorySkill_execute w limit)) (\<lambda>result.
          ret (data_if_success result (Some []))))"

definition StoryAgent_generate_story ::
    "world \<Rightarrow> Settings \<Rightarrow> bool \<Rightarrow> int \<Rightarrow> StoryHistoryEntry list option \<Rightarrow> Story option io" where
  "StoryAgent_generate_story w cfg db_session episode history =
    bind (execute_skill (StoryAgent_skills db_session) ''generate_story''
            (GenerateStorySkill_execute w cfg episode history)) (\<lambda>result.
    ret (data_if_success result None))"

definition StoryAgent_save_story :: "world \<Rightarrow> bool \<Rightarrow> Story \<Rightarrow> int \<Rightarrow> int option io" where
  "StoryAgent_save_story w db_session st episode =
    (if \<not> db_session then ret None
     else bind (execute_skill (StoryAgent_skills db_session) ''save_story''
                  (SaveStorySkill_execute w st episode)) (\<lambda>result.
          ret (data_if_success result None)))"

text \<open>
  \<^verbatim>\<open>StoryAgent.run(episode, save_to_db)\<close>. The handler reads the local variable
  \<^verbatim>\<open>episode\<close>, which the body assigns after the history is loaded: the first
  \<open>try_except\<close> covers the statements before the assignment, the second the rest.
  \<^verbatim>\<open>len(history)\<close> raises on \<^verbatim>\<open>None\<close>.
\<close>

definition StoryAgent_run :: "world \<Rightarrow> Settings \<Rightarrow> bool \<Rightarrow> int option \<Rightarrow> bool \<Rightarrow> StoryAgentResult io" where
  "StoryAgent_run w cfg db_session episode save_to_db =
    bind (try_except
            (bind (StoryAgent_get_history w db_session 50) (\<lambda>history.
               (case episode of
                  Some ep \<Rightarrow> ret (Inr (history, ep))
                | None \<Rightarrow>
                   (case history of
                      None \<Rightarrow> raise (Exception (S ''object of type NoneType has no len()''))
                    | Some h \<Rightarrow> ret (Inr (history, int (length h) + 1))))))
            (\<lambda>e. ret (Inl e)))
      (\<lambda>r. case r of
         Inl e \<Rightarrow> ret \<lparr>sa_story = None, sa_story_id = None, sa_episode = or_int episode 0,
                       sa_success = False, sa_error = Some (str_exn e)\<rparr>
       | Inr (history, ep) \<Rightarrow>
          try_except
            (bind (StoryAgent_generate_story w cfg db_session ep history) (\<lambda>st.
               (case st of
                  None \<Rightarrow> ret \<lparr>sa_story = None, sa_story_id = None, sa_episode = ep,
                                sa_success = False,
                                sa_error = Some (S ''Failed to generate story'')\<rparr>
                | Some st' \<Rightarrow>
                   bind (if save_to_db \<and> db_session
                         then StoryAgent_save_story w db_session st' ep
                         else ret None) (\<lambda>sid.
                   ret \<lparr>sa_story = Some st', sa_story_id = sid, sa_episode = ep,
                        sa_success = True, sa_error = None\<rparr>))))
            (\<lambda>e. ret \<lparr>sa_story = None, sa_story_id = None, sa_episode = or_int (Some ep) 0,
                       sa_success = False, sa_error = Some (str_exn e)\<rparr>))"

section \<open>Video generator (video_generator.py)\<close>

definition path_join :: "pystr \<Rightarrow> pystr \<Rightarrow> pystr" where
  "path_join dir name = dir @ [47] @ name"

text \<open>
  The polling loop \<^verbatim>\<open>while not operation.done\<close>: each round sleeps and asks the
  service again. With no fuel left and the operation not done, the loop counts as
  running forever.
\<close>

fun wait_done :: "world \<Rightarrow> nat \<Rightarrow> operation \<Rightarrow> operation io" where
  "wait_done w 0 opn = (if op_done opn then ret opn else diverge)"
| "wait_done w (Suc fuel) opn =
    (if op_done opn then ret opn
     else bind (call EVeoPoll (veo_get w)) (wait_done w fuel))"

text \<open>
  The placeholder of \<^verbatim>\<open>_generate_mock_video\<close> when the clock is read at moment
  \<open>t\<close>: a path under the output directory, status completed, and the mock flag.
\<close>

definition mock_path :: "world \<Rightarrow> Settings \<Rightarrow> nat \<Rightarrow> pystr" where
  "mock_path w cfg t =
    path_join (output_dir cfg) (S ''mock_video_'' @ str_int (time_time w t) @ S ''.mp4'')"

definition mock_result :: "world \<Rightarrow> Settings \<Rightarrow> nat \<Rightarrow> VideoGenerationResult" where
  "mock_result w cfg t =
    \<lparr>vr_video_url = Some (mock_path w cfg t), vr_operation_id = None,
     vr_status = S ''completed'', vr_file_path = None, vr_mock = True\<rparr>"

definition generate_mock_video :: "world \<Rightarrow> Settings \<Rightarrow> pystr \<Rightarrow> VideoGenerationResult io" where
  "generate_mock_video w cfg prompt = bind get_now (\<lambda>t. ret (mock_result w cfg t))"

definition full_prompt :: "pystr \<Rightarrow> pystr \<Rightarrow> pystr \<Rightarrow> pystr \<Rightarrow> pystr" where
  "full_prompt prompt style aspect_ratio negative_prompt =
    prompt @ S '', '' @ style @ S '', high quality, cute raccoon character, ''
    @ S ''cooking video, shorts format, '' @ aspect_ratio @ S '' aspect ratio, ''
    @ S ''no dialogue, no speech, no narration, sound effects only, ambient cooking sounds, ''
    @ S ''avoid: '' @ negative_prompt"

text \<open>
  \<^verbatim>\<open>generate_video(prompt, duration)\<close> with the default aspect ratio, style and
  negative prompt. \<open>veo_render\<close> is the body of its \<^verbatim>\<open>try\<close>: the request to
  the video service, the polling loop, the download and the save. The message of the
  \<^verbatim>\<open>ValueError\<close> is the source's literal (there is no generated video).
\<close>

definition veo_render :: "world \<Rightarrow> Settings \<Rightarrow> pystr \<Rightarrow> int \<Rightarrow> VideoGenerationResult io" where
  "veo_render w cfg prompt duration =
    bind (call (EVeoGenerate
                  (full_prompt prompt (S ''cute, animated, raccoon cooking'') (S ''9:16'')
                     (S ''realistic, human, scary'')) duration)
               (veo_generate w)) (\<lambda>op0.
    bind (wait_done w (poll_fuel w) op0) (\<lambda>opn.
    if op_has_video opn then
      bind (call EVeoDownload (veo_download w)) (\<lambda>_.
      bind get_now (\<lambda>t.
        let filepath = path_join (output_dir cfg)
              (S ''veo3_'' @ str_int (time_time w t) @ S ''.mp4'') in
        bind (call (EVeoSave filepath) (veo_save w)) (\<lambda>_.
          ret \<lparr>vr_video_url = Some filepath, vr_operation_id = None,
               vr_status = S ''completed'', vr_file_path = None, vr_mock = False\<rparr>)))
    else raise (ValueError [50689, 49345, 32, 49373, 49457, 32, 44208, 44284, 44032, 32,
                            50630, 49845, 45768, 45796])))"

definition generate_video :: "world \<Rightarrow> Settings \<Rightarrow> pystr \<Rightarrow> int \<Rightarrow> VideoGenerationResult io" where
  "generate_video w cfg prompt duration =
    try_except (veo_render w cfg prompt duration) (\<lambda>e. generate_mock_video w cfg prompt)"

fun join :: "pystr \<Rightarrow> pystr list \<Rightarrow> pystr" where
  "join sep [] = []"
| "join sep [x] = x"
| "join sep (x # y # ys) = x @ sep @ join sep (y # ys)"

definition file_line :: "pystr \<Rightarrow> pystr" where
  "file_line path = S ''file '' @ [39] @ path @ [39]"

text \<open>
  \<^verbatim>\<open>merge_videos(video_paths, output_filename)\<close>. The file list is written
  before the \<^verbatim>\<open>try\<close>; the handler of the source prints and re-raises.
\<close>

definition merge_videos :: "world \<Rightarrow> Settings \<Rightarrow> pystr list \<Rightarrow> pystr option \<Rightarrow> pystr io" where
  "merge_videos w cfg video_paths output_filename =
    bind get_now (\<lambda>t.
    let output_path = path_join (output_dir cfg)
          (or_str output_filename
             (S ''final_video_'' @ str_int (time_time w t) @ S ''.mp4''));
        file_list_path = path_join (output_dir cfg) (S ''filelist.txt'')
    in bind (call (EWriteFileList (join [10] (map file_line video_paths))) (fs_write w)) (\<lambda>_.
         try_except
           (bind (call (EFfmpeg [S ''ffmpeg'', S ''-f'', S ''concat'', S ''-safe'', S ''0'',
                                 S ''-i'', file_list_path, S ''-c'', S ''copy'', output_path])
                       (ffmpeg w)) (\<lambda>_.
            bind (call EUnlink (fs_unlink w)) (\<lambda>_.
            ret output_path)))
           (\<lambda>e. raise e)))"

text \<open>The loop of \<^verbatim>\<open>generate_video_sequence\<close> over the prompts, in order.\<close>

fun render_all :: "world \<Rightarrow> Settings \<Rightarrow> pystr list \<Rightarrow> int \<Rightarrow> pystr list \<Rightarrow> pystr list io" where
  "render_all w cfg [] duration videos = ret videos"
| "render_all w cfg (prompt # prompts) duration videos =
    bind (generate_video w cfg prompt duration) (\<lambda>result.
      render_all w cfg prompts duration
        (case vr_video_url result of
           Some url \<Rightarrow>
             if url \<noteq> [] \<and> vr_status result = S ''completed'' then videos @ [url]
             else videos
         | None \<Rightarrow> videos))"

definition generate_video_sequence ::
    "world \<Rightarrow> Settings \<Rightarrow> pystr list \<Rightarrow> int \<Rightarrow> pystr option \<Rightarrow> pystr io" where
  "generate_video_sequence w cfg prompts duration output_filename =
    bind (render_all w cfg prompts duration []) (\<lambda>videos.
      if length videos > 1 then merge_videos w cfg videos output_filename
      else (case videos of v # _ \<Rightarrow> ret v | [] \<Rightarrow> ret []))"

section \<open>Video skills (skills/video_skills.py)\<close>

definition GenerateVideoSequenceSkill_execute ::
    "world \<Rightarrow> Settings \<Rightarrow> pystr list \<Rightarrow> int \<Rightarrow> pystr option \<Rightarrow> pystr SkillResult io" where
  "GenerateVideoSequenceSkill_execute w cfg prompts duration output_filename =
    try_except
      (bind (generate_video_sequence w cfg prompts duration output_filename) (\<lambda>video_path.
       ret (SkillResult_success video_path)))
      (\<lambda>e. ret (SkillResult_failed (fmsg ''Video sequence generation failed: '' e)))"

definition SaveVideoGenerationSkill_execute :: "world \<Rightarrow> int \<Rightarrow> pystr \<Rightarrow> int SkillResult io" where
  "SaveVideoGenerationSkill_execute w sid status =
    try_except
      (bind (call (EVideoCreate sid status) (db_video_create w)) (\<lambda>db_video_id.
       bind (call ECommit (db_commit w)) (\<lambda>_.
       ret (SkillResult_success db_video_id))))
      (\<lambda>e. bind (call ERollback (db_rollback w)) (\<lambda>_.
            ret (SkillResult_failed (fmsg ''Failed to save video generation: '' e))))"

definition UpdateVideoGenerationSkill_execute ::
    "world \<Rightarrow> int \<Rightarrow> pystr option \<Rightarrow> pystr option \<Rightarrow> pystr option \<Rightarrow> bool SkillResult io" where
  "UpdateVideoGenerationSkill_execute w video_id status video_path error_message =
    try_except
      (bind (call (EVideoUpdate video_id status video_path error_message) (db_video_update w)) (\<lambda>_.
       bind (call ECommit (db_commit w)) (\<lambda>_.
       ret (SkillResult_success True))))
      (\<lambda>e. bind (call ERollback (db_rollback w)) (\<lambda>_.
            ret (SkillResult_failed (fmsg ''Failed to update video generation: '' e))))"

section \<open>Video agent (agents/video_agent.py)\<close>

record VideoAgentResult =
  va_video_path :: "pystr option"
  va_video_generation_id :: "int option"
  va_segment_count :: int
  va_success :: bool
  va_error :: "pystr option"

definition VideoAgent_skills :: "bool \<Rightarrow> string list" where
  "VideoAgent_skills db_session =
    [''generate_video'', ''generate_video_sequence'', ''merge_videos'']
    @ (if db_session then [''save_video_generation'', ''update_video_generation''] else [])"

definition default_filename :: "world \<Rightarrow> pystr option \<Rightarrow> pystr io" where
  "default_filename w output_filename =
    (case output_filename of
       None \<Rightarrow> bind get_now (\<lambda>t. ret (S ''video_'' @ str_int (time_time w t) @ S ''.mp4''))
     | Some f \<Rightarrow> ret f)"

definition VideoAgent_generate_video_sequence ::
    "world \<Rightarrow> Settings \<Rightarrow> bool \<Rightarrow> pystr list \<Rightarrow> int \<Rightarrow> pystr option \<Rightarrow> pystr option io" where
  "VideoAgent_generate_video_sequence w cfg db_session prompts duration output_filename =
    bind (default_filename w output_filename) (\<lambda>output_filename'.
    bind (execute_skill (VideoAgent_skills db_session) ''generate_video_sequence''
            (GenerateVideoSequenceSkill_execute w cfg prompts duration (Some output_filename')))
      (\<lambda>result. ret (data_if_success result None)))"

definition VideoAgent_save_generation_record ::
    "world \<Rightarrow> bool \<Rightarrow> int \<Rightarrow> pystr \<Rightarrow> int option io" where
  "VideoAgent_save_generation_record w db_session sid status =
    (if \<not> db_session then ret None
     else bind (execute_skill (VideoAgent_skills db_session) ''save_video_generation''
                  (SaveVideoGenerationSkill_execute w sid status))
            (\<lambda>result. ret (data_if_success result None)))"

definition VideoAgent_update_generation_record ::
    "world \<Rightarrow> bool \<Rightarrow> int \<Rightarrow> pystr option \<Rightarrow> pystr option \<Rightarrow> pystr option \<Rightarrow> bool io" where
  "VideoAgent_update_generation_record w db_session video_id status video_path error_message =
    (if \<not> db_session then ret False
     else bind (execute_skill (VideoAgent_skills db_session) ''update_video_generation''
                  (UpdateVideoGenerationSkill_execute w video_id status video_path error_message))
            (\<lambda>result. ret (is_success result)))"

text \<open>
  \<^verbatim>\<open>VideoAgent.run(prompts, story_id, duration, output_filename)\<close>. The handler
  reads \<^verbatim>\<open>video_generation_id\<close>, which is \<^verbatim>\<open>None\<close> until the first statement
  of the body has assigned it: the first \<open>try_except\<close> covers that statement, the
  second the rest of the body. The calls the handler makes are outside every
  \<^verbatim>\<open>try\<close>.
\<close>

definition VideoAgent_failed :: "int option \<Rightarrow> pystr list \<Rightarrow> pystr \<Rightarrow> VideoAgentResult" where
  "VideoAgent_failed vgid prompts error_msg =
    \<lparr>va_video_path = None, va_video_generation_id = vgid,
     va_segment_count = int (length prompts), va_success = False,
     va_error = Some error_msg\<rparr>"

text \<open>\<^verbatim>\<open>if video_generation_id: ...\<close> on an optional row id.\<close>

definition when_id :: "int option \<Rightarrow> (int \<Rightarrow> 'a io) \<Rightarrow> unit io" where
  "when_id v f =
    (case v of
       Some i \<Rightarrow> if i \<noteq> 0 then bind (f i) (\<lambda>_. ret ()) else ret ()
     | None \<Rightarrow> ret ())"

definition VideoAgent_handler ::
    "world \<Rightarrow> bool \<Rightarrow> int option \<Rightarrow> pystr list \<Rightarrow> exn \<Rightarrow> VideoAgentResult io" where
  "VideoAgent_handler w db_session vgid prompts e =
    bind (when_id vgid (\<lambda>i.
            VideoAgent_update_generation_record w db_session i
              (Some (S ''failed'')) None (Some (str_exn e)))) (\<lambda>_.
    ret (VideoAgent_failed vgid prompts (str_exn e)))"

definition VideoAgent_run ::
    "world \<Rightarrow> Settings \<Rightarrow> bool \<Rightarrow> pystr list \<Rightarrow> int option \<Rightarrow> int \<Rightarrow> pystr option
      \<Rightarrow> VideoAgentResult io" where
  "VideoAgent_run w cfg db_session prompts sid duration output_filename =
    bind (try_except
            (bind (case sid of
                     Some i \<Rightarrow>
                       if i \<noteq> 0 \<and> db_session
                       then VideoAgent_save_generation_record w db_session i (S ''processing'')
                       else ret None
                   | None \<Rightarrow> ret None) (\<lambda>vgid. ret (Inr vgid)))
            (\<lambda>e. ret (Inl e)))
      (\<lambda>r. case r of
         Inl e \<Rightarrow> VideoAgent_handler w db_session None prompts e
       | Inr vgid \<Rightarrow>
          try_except
            (bind (default_filename w output_filename) (\<lambda>output_filename'.
                   bind (VideoAgent_generate_video_sequence w cfg db_session prompts duration
                         (Some output_filename')) (\<lambda>video_path.
                   if \<not> truthy_str video_path then
                     bind (when_id vgid (\<lambda>i.
                             VideoAgent_update_generation_record w db_session i
                               (Some (S ''failed'')) None
                               (Some (S ''Failed to generate video sequence'')))) (\<lambda>_.
                     ret (VideoAgent_failed vgid prompts
                            (S ''Failed to generate video sequence'')))
                   else
                     bind (when_id vgid (\<lambda>i.
                             VideoAgent_update_generation_record w db_session i
                               (Some (S ''completed'')) video_path None)) (\<lambda>_.
                     ret \<lparr>va_video_path = video_path, va_video_generation_id = vgid,
                          va_segment_count = int (length prompts), va_success = True,
                          va_error = None\<rparr>))))
            (VideoAgent_handler w db_session vgid prompts))"

section \<open>YouTube skills and agent (skills/youtube_skills.py, agents/youtube_agent.py)\<close>

definition UploadVideoSkill_execute ::
    "world \<Rightarrow> pystr \<Rightarrow> pystr \<Rightarrow> pystr \<Rightarrow> pystr list \<Rightarrow> pystr \<Rightarrow> YouTubeUploadResult SkillResult io" where
  "UploadVideoSkill_execute w video_path title description tags privacy =
    try_except
      (bind (call (EUpload video_path title description tags privacy) (yt_upload w)) (\<lambda>result.
       ret (SkillResult_success result)))
      (\<lambda>e. ret (SkillResult_failed (fmsg ''Upload failed: '' e)))"

definition SaveYouTubeUploadSkill_execute ::
    "world \<Rightarrow> int \<Rightarrow> pystr \<Rightarrow> pystr \<Rightarrow> pystr \<Rightarrow> int option \<Rightarrow> pystr \<Rightarrow> int SkillResult io" where
  "SaveYouTubeUploadSkill_execute w sid video_id video_url title vgid privacy =
    try_except
      (bind (call (EUploadCreate sid video_id video_url title vgid privacy) (db_upload_create w))
         (\<lambda>record_id.
       bind (call ECommit (db_commit w)) (\<lambda>_.
       ret (SkillResult_success record_id))))
      (\<lambda>e. bind (call ERollback (db_rollback w)) (\<lambda>_.
            ret (SkillResult_failed (fmsg ''Failed to save upload record: '' e))))"

record YouTubeAgentResult =
  ya_video_id :: "pystr option"
  ya_video_url :: "pystr option"
  ya_upload_record_id :: "int option"
  ya_success :: bool
  ya_error :: "pystr option"

definition YouTubeAgent_skills :: "bool \<Rightarrow> string list" where
  "YouTubeAgent_skills db_session =
    [''upload_video'', ''get_video_info'']
    @ (if db_session then [''save_youtube_upload''] else [])"

definition YouTubeAgent_upload_video ::
    "world \<Rightarrow> bool \<Rightarrow> pystr \<Rightarrow> pystr \<Rightarrow> pystr \<Rightarrow> pystr list \<Rightarrow> pystr
      \<Rightarrow> YouTubeUploadResult option io" where
  "YouTubeAgent_upload_video w db_session video_path title description tags privacy =
    bind (execute_skill (YouTubeAgent_skills db_session) ''upload_video''
            (UploadVideoSkill_execute w video_path title description tags privacy))
      (\<lambda>result. ret (data_if_success result None))"

definition YouTubeAgent_save_upload_record ::
    "world \<Rightarrow> bool \<Rightarrow> int \<Rightarrow> pystr \<Rightarrow> pystr \<Rightarrow> pystr \<Rightarrow> int option \<Rightarrow> pystr \<Rightarrow> int option io" where
  "YouTubeAgent_save_upload_record w db_session sid video_id video_url title vgid privacy =
    (if \<not> db_session then ret None
     else bind (execute_skill (YouTubeAgent_skills db_session) ''save_youtube_upload''
                  (SaveYouTubeUploadSkill_execute w sid video_id video_url title vgid privacy))
            (\<lambda>result. ret (data_if_success result None)))"

definition YouTubeAgent_failed :: "pystr \<Rightarrow> YouTubeAgentResult" where
  "YouTubeAgent_failed m =
    \<lparr>ya_video_id = None, ya_video_url = None, ya_upload_record_id = None,
     ya_success = False, ya_error = Some m\<rparr>"

definition YouTubeAgent_run ::
    "world \<Rightarrow> bool \<Rightarrow> pystr \<Rightarrow> pystr \<Rightarrow> pystr \<Rightarrow> pystr list \<Rightarrow> pystr \<Rightarrow> int option \<Rightarrow> int option
      \<Rightarrow> YouTubeAgentResult io" where
  "YouTubeAgent_run w db_session video_path title description tags privacy sid vgid =
    try_except
      (bind (YouTubeAgent_upload_video w db_session video_path title description tags privacy)
         (\<lambda>upload.
           case upload of
             None \<Rightarrow> ret (YouTubeAgent_failed (S ''Failed to upload video to YouTube''))
           | Some u \<Rightarrow>
              bind (case sid of
                      Some i \<Rightarrow>
                        if i \<noteq> 0 \<and> db_session
                        then YouTubeAgent_save_upload_record w db_session i (yu_video_id u)
                               (yu_url u) (yu_title u) vgid privacy
                        else ret None
                    | None \<Rightarrow> ret None) (\<lambda>upload_record_id.
              ret \<lparr>ya_video_id = Some (yu_video_id u), ya_video_url = Some (yu_url u),
                   ya_upload_record_id = upload_record_id, ya_success = True,
                   ya_error = None\<rparr>)))
      (\<lambda>e. ret (YouTubeAgent_failed (str_exn e)))"

section \<open>Execution ledger (repository.py, class WorkflowExecutionRepository)\<close>

text \<open>
  The statements on the ledger table are taken to succeed; the session's
  \<^verbatim>\<open>commit\<close> is an external call like any other. A new row gets the next free
  id, counted from 1, and the database's clock reading as \<^verbatim>\<open>started_at\<close>.
\<close>

definition next_id :: "(int \<times> WorkflowExecution) list \<Rightarrow> int" where
  "next_id rows = 1 + fold max (map fst rows) 0"

definition WorkflowExecutionRepository_create :: "world \<Rightarrow> int option \<Rightarrow> pystr \<Rightarrow> int io" where
  "WorkflowExecutionRepository_create w episode status = (\<lambda>s.
    let i = next_id (executions s);
        row = \<lparr>we_episode_number = episode, we_status = status, we_current_step = None,
               we_story_id = None, we_video_generation_id = None,
               we_youtube_upload_id = None, we_error_message = None,
               we_started_at = Some (db_now w (now s)), we_completed_at = None,
               we_duration_seconds = None\<rparr>
    in (Ret i, s\<lparr>executions := executions s @ [(i, row)]\<rparr>))"

record update_args =
  u_status :: "pystr option"
  u_current_step :: "pystr option"
  u_story_id :: "int option"
  u_video_generation_id :: "int option"
  u_youtube_upload_id :: "int option"
  u_error_message :: "pystr option"

text \<open>\<^verbatim>\<open>int(x)\<close> of a quotient: truncation towards zero.\<close>

definition trunc_div :: "int \<Rightarrow> int \<Rightarrow> int" where
  "trunc_div a b = (if a \<ge> 0 then a div b else - ((- a) div b))"

text \<open>The instant of a timezone-aware \<^verbatim>\<open>datetime\<close>, in microseconds of UTC.\<close>

definition instant :: "datetime \<Rightarrow> int" where
  "instant d = wall d - (case tzinfo d of Some off \<Rightarrow> off | None \<Rightarrow> 0)"

definition set_str :: "pystr option \<Rightarrow> pystr option \<Rightarrow> pystr option" where
  "set_str new old = (if truthy_str new then new else old)"

definition set_int :: "int option \<Rightarrow> int option \<Rightarrow> int option" where
  "set_int new old = (if truthy_int new then new else old)"

text \<open>
  The body of \<^verbatim>\<open>update\<close> under \<^verbatim>\<open>if db_execution:\<close>; \<open>utc\<close> is the reading
  of \<^verbatim>\<open>datetime.now(timezone.utc)\<close> in microseconds. \<^verbatim>\<open>total_seconds()\<close>
  of the difference is its microseconds over \<open>10^6\<close>.
\<close>

definition update_row :: "int \<Rightarrow> update_args \<Rightarrow> WorkflowExecution \<Rightarrow> WorkflowExecution" where
  "update_row utc a r =
    (let r1 = r\<lparr>we_status := (case u_status a of
                                  Some st \<Rightarrow> if st \<noteq> [] then st else we_status r
                                | None \<Rightarrow> we_status r),
                 we_current_step := set_str (u_current_step a) (we_current_step r),
                 we_story_id := set_int (u_story_id a) (we_story_id r),
                 we_video_generation_id :=
                   set_int (u_video_generation_id a) (we_video_generation_id r),
                 we_youtube_upload_id :=
                   set_int (u_youtube_upload_id a) (we_youtube_upload_id r),
                 we_error_message := set_str (u_error_message a) (we_error_message r)\<rparr>
     in if u_status a = Some (S ''completed'') \<or> u_status a = Some (S ''failed'') then
          (let completed = \<lparr>wall = utc, tzinfo = Some 0\<rparr>;
               r2 = r1\<lparr>we_completed_at := Some completed\<rparr>
           in case we_started_at r2 of
                Some started0 \<Rightarrow>
                  (let started = (if tzinfo started0 = None
                                  then started0\<lparr>tzinfo := Some 0\<rparr> else started0)
                   in r2\<lparr>we_duration_seconds :=
                          Some (trunc_div (instant completed - instant started) 1000000)\<rparr>)
              | None \<Rightarrow> r2)
        else r1)"

text \<open>
  \<^verbatim>\<open>update(execution_id, ...)\<close>: the row is looked up by its id
  (\<^verbatim>\<open>scalar_one_or_none\<close> raises when several rows match).
\<close>

definition WorkflowExecutionRepository_update ::
    "world \<Rightarrow> int \<Rightarrow> update_args \<Rightarrow> WorkflowExecution option io" where
  "WorkflowExecutionRepository_update w eid a = (\<lambda>s.
    case filter (\<lambda>(i, r). i = eid) (executions s) of
      [] \<Rightarrow> (Ret None, s)
    | [(i, r)] \<Rightarrow>
        (let r' = update_row (utc_now w (now s)) a r
         in (Ret (Some r'),
             s\<lparr>executions := map (\<lambda>(j, q). if j = eid then (j, r') else (j, q)) (executions s)\<rparr>))
    | _ \<Rightarrow> (Raise (Exception (S ''Multiple rows were found when one or none was required'')), s))"

definition no_args :: update_args where
  "no_args = \<lparr>u_status = None, u_current_step = None, u_story_id = None,
               u_video_generation_id = None, u_youtube_upload_id = None,
               u_error_message = None\<rparr>"

section \<open>Workflow (workflow.py, class VideoWorkflowAgent)\<close>

text \<open>
  The messages of the \<^verbatim>\<open>ValueError\<close>s the nodes raise, as the code points of
  the source's literals: story generation failed; video generation failed; YouTube
  upload failed; no story was generated; the skip switch is on but no test video path
  is set; the story or the video path is missing.
\<close>

definition msg_story_failed :: pystr where
  "msg_story_failed = [49828, 53664, 47532, 32, 49373, 49457, 32, 49892, 54056]"

definition msg_video_failed :: pystr where
  "msg_video_failed = [50689, 49345, 32, 49373, 49457, 32, 49892, 54056]"

definition msg_upload_failed :: pystr where
  "msg_upload_failed = [89, 111, 117, 84, 117, 98, 101, 32, 50629, 47196, 46300, 32, 49892, 54056]"

definition msg_no_story :: pystr where
  "msg_no_story = [49828, 53664, 47532, 44032, 32, 49373, 49457, 46104, 51648, 32, 50506,
                   50520, 49845, 45768, 45796, 46]"

definition msg_skip_no_path :: pystr where
  "msg_skip_no_path = S ''skip_video_generation=True'' @ [51060, 51648, 47564, 32]
     @ S ''test_video_path'' @ [44032, 32, 49444, 51221, 46104, 51648, 32, 50506, 50520,
                                49845, 45768, 45796, 46]"

definition msg_no_story_or_path :: pystr where
  "msg_no_story_or_path = [49828, 53664, 47532, 45208, 32, 50689, 49345, 32, 44221, 47196,
                           44032, 32, 50630, 49845, 45768, 45796, 46]"

text \<open>
  The handler every stage node shares: \<^verbatim>\<open>state.error = str(error)\<close> and
  \<^verbatim>\<open>state.current_step = "error"\<close>.
\<close>

definition node_failed :: "WorkflowState \<Rightarrow> exn \<Rightarrow> WorkflowState io" where
  "node_failed state e = ret (state\<lparr>error := Some (str_exn e), current_step := S ''error''\<rparr>)"

text \<open>
  \<open>use_db\<close> is \<^verbatim>\<open>self._use_db and self.db_session\<close>: the constructor and
  \<^verbatim>\<open>run\<close> set the two together, and the agents are built with the same session.
  A history that is \<^verbatim>\<open>None\<close> cannot come out of \<open>StoryAgent_get_history\<close>
  (a successful skill result carries a list); it is treated as a failed load.
\<close>

definition load_history_node :: "world \<Rightarrow> bool \<Rightarrow> WorkflowState \<Rightarrow> WorkflowState io" where
  "load_history_node w use_db state =
    bind (call (ENode (S ''load_history'')) (\<lambda>_. Inr ())) (\<lambda>_.
    bind (try_except
            (if use_db then
               bind (StoryAgent_get_history w use_db 50) (\<lambda>history.
                 case history of
                   Some h \<Rightarrow> ret (state\<lparr>story_history := h\<rparr>)
                 | None \<Rightarrow> raise (Exception (S ''history is None'')))
             else
               bind (call EHistoryFileRead (history_file_read w)) (\<lambda>history_data.
                 case history_data of
                   Some h \<Rightarrow> ret (state\<lparr>story_history := h\<rparr>)
                 | None \<Rightarrow> ret (state\<lparr>story_history := []\<rparr>)))
            (\<lambda>e. ret (state\<lparr>story_history := []\<rparr>))) (\<lambda>state'.
    ret (state'\<lparr>current_step := S ''load_history''\<rparr>)))"

definition generate_story_node ::
    "world \<Rightarrow> Settings \<Rightarrow> bool \<Rightarrow> WorkflowState \<Rightarrow> WorkflowState io" where
  "generate_story_node w cfg use_db state =
    bind (call (ENode (S ''generate_story'')) (\<lambda>_. Inr ())) (\<lambda>_.
    try_except
      (let episode = or_int (episode_number state) (int (length (story_history state)) + 1) in
       bind (StoryAgent_run w cfg use_db (Some episode) use_db) (\<lambda>result.
         case sa_story result of
           Some st \<Rightarrow>
             if sa_success result then
               ret (state\<lparr>story := Some st, story_id := sa_story_id result,
                          current_step := S ''generate_story''\<rparr>)
             else raise (ValueError (or_str (sa_error result) msg_story_failed))
         | None \<Rightarrow> raise (ValueError (or_str (sa_error result) msg_story_failed))))
      (node_failed state))"

definition generate_videos_node ::
    "world \<Rightarrow> Settings \<Rightarrow> bool \<Rightarrow> WorkflowState \<Rightarrow> WorkflowState io" where
  "generate_videos_node w cfg use_db state =
    bind (call (ENode (S ''generate_videos'')) (\<lambda>_. Inr ())) (\<lambda>_.
    try_except
      (case story state of
         None \<Rightarrow> raise (ValueError msg_no_story)
       | Some st \<Rightarrow>
          if skip_video_generation cfg then
            (if test_video_path cfg = [] then raise (ValueError msg_skip_no_path)
             else ret (state\<lparr>final_video_path := Some (test_video_path cfg),
                             video_generation_id := None,
                             current_step := S ''generate_videos''\<rparr>))
          else
            bind (default_filename w None) (\<lambda>output_filename.
            bind (VideoAgent_run w cfg use_db (s_video_prompts st) (story_id state) 5
                    (Some output_filename)) (\<lambda>result.
              if va_success result \<and> truthy_str (va_video_path result) then
                ret (state\<lparr>final_video_path := va_video_path result,
                           video_generation_id := va_video_generation_id result,
                           current_step := S ''generate_videos''\<rparr>)
              else raise (ValueError (or_str (va_error result) msg_video_failed)))))
      (node_failed state))"

definition upload_to_youtube_node :: "world \<Rightarrow> bool \<Rightarrow> WorkflowState \<Rightarrow> WorkflowState io" where
  "upload_to_youtube_node w use_db state =
    bind (call (ENode (S ''upload_to_youtube'')) (\<lambda>_. Inr ())) (\<lambda>_.
    try_except
      (case story state of
         None \<Rightarrow> raise (ValueError msg_no_story_or_path)
       | Some st \<Rightarrow>
          (case final_video_path state of
             None \<Rightarrow> raise (ValueError msg_no_story_or_path)
           | Some video_path \<Rightarrow>
              if video_path = [] then raise (ValueError msg_no_story_or_path)
              else
                bind (YouTubeAgent_run w use_db video_path (s_title st) (s_description st)
                        (s_tags st) (privacy_status state) (story_id state)
                        (video_generation_id state)) (\<lambda>result.
                  if \<not> ya_success result
                  then raise (ValueError (or_str (ya_error result) msg_upload_failed))
                  else ret (state\<lparr>upload_result :=
                                    Some \<lparr>yu_video_id = or_str (ya_video_id result) [],
                                          yu_url = or_str (ya_video_url result) [],
                                          yu_title = s_title st\<rparr>,
                                  youtube_upload_id := ya_upload_record_id result,
                                  current_step := S ''upload_to_youtube''\<rparr>))))
      (node_failed state))"

text \<open>
  \<^verbatim>\<open>save_history_node\<close>. Its handler records the error, leaves
  \<^verbatim>\<open>current_step\<close> as it is and rolls the session back outside any
  \<^verbatim>\<open>try\<close>. Building the new history entry needs the story's episode and date.
\<close>

definition save_history_node :: "world \<Rightarrow> bool \<Rightarrow> WorkflowState \<Rightarrow> WorkflowState io" where
  "save_history_node w use_db state =
    bind (call (ENode (S ''save_history'')) (\<lambda>_. Inr ())) (\<lambda>_.
    try_except
      (bind (if use_db then
               bind (call ECommit (db_commit w)) (\<lambda>_.
               bind (StoryAgent_get_history w use_db 100) (\<lambda>history.
                 case history of
                   Some h \<Rightarrow> ret (state\<lparr>story_history := h\<rparr>)
                 | None \<Rightarrow> raise (Exception (S ''history is None''))))
             else
               bind (case story state of
                       None \<Rightarrow> ret (story_history state)
                     | Some st \<Rightarrow>
                        (case (s_episode st, s_date st) of
                           (Some ep, Some d) \<Rightarrow>
                             ret (story_history state @ [history_entry st ep d])
                         | _ \<Rightarrow> raise (Exception (S ''validation error'')))) (\<lambda>history.
               bind (call (EHistoryFileWrite history) (history_file_write w)) (\<lambda>_.
               ret (state\<lparr>story_history := history\<rparr>)))) (\<lambda>state'.
       ret (state'\<lparr>current_step := S ''save_history''\<rparr>)))
      (\<lambda>e. bind (if use_db then call ERollback (db_rollback w) else ret ()) (\<lambda>_.
            ret (state\<lparr>error := Some (str_exn e)\<rparr>))))"

definition handle_error_node :: "WorkflowState \<Rightarrow> WorkflowState io" where
  "handle_error_node state =
    bind (call (ENode (S ''handle_error'')) (\<lambda>_. Inr ())) (\<lambda>_.
    ret (state\<lparr>current_step := S ''error''\<rparr>))"

definition should_continue_after_story :: "WorkflowState \<Rightarrow> pystr" where
  "should_continue_after_story state =
    (if truthy_str (error state) \<or> story state = None then S ''error'' else S ''continue'')"

definition should_continue_after_videos :: "WorkflowState \<Rightarrow> pystr" where
  "should_continue_after_videos state =
    (if truthy_str (error state) \<or> \<not> truthy_str (final_video_path state)
     then S ''error'' else S ''continue'')"

definition should_continue_after_upload :: "WorkflowState \<Rightarrow> pystr" where
  "should_continue_after_upload state =
    (if truthy_str (error state) \<or> upload_result state = None
     then S ''error'' else S ''continue'')"

text \<open>
  The graph of \<^verbatim>\<open>_build_graph\<close>: six nodes, the entry point, the plain edges and
  the three conditional edges with their routing tables. \<open>None\<close> is \<^verbatim>\<open>END\<close>.
\<close>

datatype node =
    N_load_history
  | N_generate_story
  | N_generate_videos
  | N_upload_to_youtube
  | N_save_history
  | N_handle_error

fun node_name :: "node \<Rightarrow> pystr" where
  "node_name N_load_history = S ''load_history''"
| "node_name N_generate_story = S ''generate_story''"
| "node_name N_generate_videos = S ''generate_videos''"
| "node_name N_upload_to_youtube = S ''upload_to_youtube''"
| "node_name N_save_history = S ''save_history''"
| "node_name N_handle_error = S ''handle_error''"

fun node_fn :: "world \<Rightarrow> Settings \<Rightarrow> bool \<Rightarrow> node \<Rightarrow> WorkflowState \<Rightarrow> WorkflowState io" where
  "node_fn w cfg use_db N_load_history = load_history_node w use_db"
| "node_fn w cfg use_db N_generate_story = generate_story_node w cfg use_db"
| "node_fn w cfg use_db N_generate_videos = generate_videos_node w cfg use_db"
| "node_fn w cfg use_db N_upload_to_youtube = upload_to_youtube_node w use_db"
| "node_fn w cfg use_db N_save_history = save_history_node w use_db"
| "node_fn w cfg use_db N_handle_error = handle_error_node"

definition route :: "pystr \<Rightarrow> node \<Rightarrow> node option" where
  "route decision target =
    (if decision = S ''continue'' then Some target
     else if decision = S ''error'' then Some N_handle_error
     else None)"

fun next_node :: "node \<Rightarrow> WorkflowState \<Rightarrow> node option" where
  "next_node N_load_history state = Some N_generate_story"
| "next_node N_generate_story state = route (should_continue_after_story state) N_generate_videos"
| "next_node N_generate_videos state = route (should_continue_after_videos state) N_upload_to_youtube"
| "next_node N_upload_to_youtube state = route (should_continue_after_upload state) N_save_history"
| "next_node N_save_history state = None"
| "next_node N_handle_error state = None"

text \<open>
  Running the compiled graph: a node, then the node its outgoing edge selects, until
  \<^verbatim>\<open>END\<close>. The graph library stops with an error after \<open>limit\<close> steps.
\<close>

fun run_from :: "world \<Rightarrow> Settings \<Rightarrow> bool \<Rightarrow> nat \<Rightarrow> node \<Rightarrow> WorkflowState \<Rightarrow> WorkflowState io" where
  "run_from w cfg use_db 0 n state = raise (Exception (S ''Recursion limit reached''))"
| "run_from w cfg use_db (Suc limit) n state =
    bind (node_fn w cfg use_db n state) (\<lambda>state'.
      case next_node n state' of
        None \<Rightarrow> ret state'
      | Some n' \<Rightarrow> run_from w cfg use_db limit n' state')"

definition ainvoke :: "world \<Rightarrow> Settings \<Rightarrow> bool \<Rightarrow> WorkflowState \<Rightarrow> WorkflowState io" where
  "ainvoke w cfg use_db state = run_from w cfg use_db 25 N_load_history state"

definition initial_state :: "int option \<Rightarrow> pystr \<Rightarrow> pystr \<Rightarrow> int option \<Rightarrow> WorkflowState" where
  "initial_state episode privacy stamp eid =
    \<lparr>episode_number = episode, privacy_status = privacy, story = None, story_history = [],
     story_id = None, video_segments = [], final_video_path = None,
     video_generation_id = None, upload_result = None, youtube_upload_id = None,
     error = None, current_step = S ''start'', timestamp = Some stamp,
     execution_id = eid\<rparr>"

text \<open>
  \<^verbatim>\<open>run(episode_number, private)\<close>. Inside \<^verbatim>\<open>run\<close> the session always
  exists (it is created when the constructor got none), so \<^verbatim>\<open>_use_db\<close> is true.
  The handler updates the ledger outside any \<^verbatim>\<open>try\<close> and re-raises.
\<close>

definition run :: "world \<Rightarrow> Settings \<Rightarrow> int option \<Rightarrow> bool \<Rightarrow> WorkflowState io" where
  "run w cfg episode private =
    bind (WorkflowExecutionRepository_create w episode (S ''running'')) (\<lambda>eid.
    try_except
      (bind (call ECommit (db_commit w)) (\<lambda>_.
       bind get_now (\<lambda>t.
         bind (ainvoke w cfg True
                 (initial_state episode (if private then S ''private'' else S ''public'')
                    (now_iso w t) (Some eid))) (\<lambda>final_state.
         bind (if eid \<noteq> 0 then
                 bind (WorkflowExecutionRepository_update w eid
                         \<lparr>u_status = Some (if \<not> truthy_str (error final_state)
                                            then S ''completed'' else S ''failed''),
                          u_current_step = None,
                          u_story_id = story_id final_state,
                          u_video_generation_id = video_generation_id final_state,
                          u_youtube_upload_id = youtube_upload_id final_state,
                          u_error_message = error final_state\<rparr>) (\<lambda>_.
                 call ECommit (db_commit w))
               else ret ()) (\<lambda>_.
         ret final_state)))))
      (\<lambda>e. bind (if eid \<noteq> 0 then
                   bind (WorkflowExecutionRepository_update w eid
                           (no_args\<lparr>u_status := Some (S ''failed''),
                                     u_error_message := Some (str_exn e)\<rparr>)) (\<lambda>_.
                   call ECommit (db_commit w))
                 else ret ()) (\<lambda>_.
            raise e)))"

section \<open>Sample environments\<close>

text \<open>
  Concrete inputs on which the theorems below are instantiated: a parsed story with
  three prompts, a history entry, settings, an empty program state, and a world in
  which every external call succeeds at once.
\<close>

definition story0 :: Story where
  "story0 = \<lparr>s_title = S ''Pancakes'', s_dish = S ''pancake'', s_summary = S ''sum'',
              s_story = S ''text'', s_cooking_steps = [S ''mix'', S ''fry''],
              s_video_prompts = [S ''p1'', S ''p2'', S ''p3''], s_tags = [S ''food''],
              s_description = S ''desc'', s_episode = None, s_date = None\<rparr>"


definition cfg0 :: Settings where
  "cfg0 = \<lparr>main_character_name = [45341, 49900, 51060], skip_video_generation = False,
            test_video_path = [], output_dir = S ''/out''\<rparr>"

definition sys0 :: sys where
  "sys0 = \<lparr>trace = [], gen_story_history = [], executions = []\<rparr>"

definition world_ok :: world where
  "world_ok =
    \<lparr>db_get_latest = (\<lambda>_. Inr []),
     db_story_create = (\<lambda>_. Inr 1),
     db_commit = (\<lambda>_. Inr ()),
     db_rollback = (\<lambda>_. Inr ()),
     gemini = (\<lambda>_. Inr (Some (S ''{}''))),
     parse_json = (\<lambda>_. Some story0),
     now_iso = (\<lambda>_. S ''2024-01-02''),
     time_time = (\<lambda>_. 7),
     veo_generate = (\<lambda>_. Inr \<lparr>op_done = True, op_has_video = True\<rparr>),
     veo_get = (\<lambda>_. Inr \<lparr>op_done = True, op_has_video = True\<rparr>),
     veo_download = (\<lambda>_. Inr ()),
     veo_save = (\<lambda>_. Inr ()),
     poll_fuel = 3,
     fs_write = (\<lambda>_. Inr ()),
     ffmpeg = (\<lambda>_. Inr ()),
     fs_unlink = (\<lambda>_. Inr ()),
     db_video_create = (\<lambda>_. Inr 7),
     db_video_update = (\<lambda>_. Inr ()),
     yt_upload = (\<lambda>_. Inr \<lparr>yu_video_id = S ''abc'', yu_url = S ''https://youtu.be/abc'',
                              yu_title = S ''Pancakes''\<rparr>),
     db_upload_create = (\<lambda>_. Inr 9),
     history_file_read = (\<lambda>_. Inr None),
     history_file_write = (\<lambda>_. Inr ()),
     db_now = (\<lambda>_. \<lparr>wall = 1000000, tzinfo = Some 0\<rparr>),
     utc_now = (\<lambda>_. 5000000)\<rparr>"

text \<open>The generator answers with text that holds no story object.\<close>

definition world_unparseable :: world where
  "world_unparseable =
    world_ok\<lparr>gemini := (\<lambda>_. Inr (Some (S ''no story''))), parse_json := (\<lambda>_. None)\<rparr>"




text \<open>
  The connection to the database is lost while the video is rendered: afterwards the
  statement on the video record raises, and so does the rollback, with an exception
  whose message is empty (as a timeout error's is). Commits of other work go through.
\<close>

definition world_db_timeout :: world where
  "world_db_timeout =
    world_ok\<lparr>db_video_update := (\<lambda>_. Inl (Exception (S ''connection is closed''))),
              db_rollback := (\<lambda>_. Inl (Exception []))\<rparr>"

text \<open>The skip switch is on and a test video is configured.\<close>

definition cfg_skip :: Settings where
  "cfg_skip = cfg0\<lparr>skip_video_generation := True, test_video_path := S ''/tmp/test.mp4''\<rparr>"

text \<open>A workflow state as the story node leaves it on success.\<close>

definition state_with_story :: WorkflowState where
  "state_with_story =
    (initial_state None (S ''public'') (S ''2024-01-02'') (Some 1))
      \<lparr>story := Some story0, story_id := Some 1, current_step := S ''generate_story''\<rparr>"

text \<open>
  A sequence of ledger updates, each with the clock reading at its moment, applied to
  one row; the two statuses that end a run; rows and updates to try them on.
\<close>

definition apply_updates :: "(int \<times> update_args) list \<Rightarrow> WorkflowExecution \<Rightarrow> WorkflowExecution" where
  "apply_updates us r = foldl (\<lambda>r (utc, a). update_row utc a r) r us"

definition terminal :: "pystr \<Rightarrow> bool" where
  "terminal st = (st = S ''completed'' \<or> st = S ''failed'')"

definition row0 :: WorkflowExecution where
  "row0 = \<lparr>we_episode_number = None, we_status = S ''running'', we_current_step = None,
               we_story_id = None, we_video_generation_id = None,
               we_youtube_upload_id = None, we_error_message = None,
               we_started_at = Some \<lparr>wall = 10000000, tzinfo = Some 0\<rparr>, we_completed_at = None,
               we_duration_seconds = None\<rparr>"

definition failed_args :: update_args where
  "failed_args = no_args\<lparr>u_status := Some (S ''failed'')\<rparr>"

definition row_done :: WorkflowExecution where
  "row_done = row0\<lparr>we_status := S ''completed'', we_story_id := Some 1\<rparr>"

definition updates0 :: "(int \<times> update_args) list" where
  "updates0 = [(20000000, failed_args), (30000000, no_args\<lparr>u_story_id := Some 0\<rparr>),
               (40000000, no_args\<lparr>u_status := Some (S ''completed'')\<rparr>)]"

section \<open>Reasoning about computations\<close>

text \<open>
  \<open>grows P s s'\<close>: from \<open>s\<close> to \<open>s'\<close> the ledger rows are untouched and the
  log has grown by events that all satisfy \<open>P\<close>.
\<close>

definition grows :: "(event \<Rightarrow> bool) \<Rightarrow> sys \<Rightarrow> sys \<Rightarrow> bool" where
  "grows P s s' =
    (executions s' = executions s \<and> (\<exists>evs. trace s' = trace s @ evs \<and> list_all P evs))"


fun video_ev :: "event \<Rightarrow> bool" where
  "video_ev (EVeoGenerate _ _) = True"
| "video_ev EVeoPoll = True"
| "video_ev EVeoDownload = True"
| "video_ev (EVeoSave _) = True"
| "video_ev (EWriteFileList _) = True"
| "video_ev (EFfmpeg _) = True"
| "video_ev EUnlink = True"
| "video_ev (EVideoCreate _ _) = True"
| "video_ev (EVideoUpdate _ _ _ _) = True"
| "video_ev ECommit = True"
| "video_ev ERollback = True"
| "video_ev _ = False"

fun upload_ev :: "event \<Rightarrow> bool" where
  "upload_ev (EUpload _ _ _ _ _) = True"
| "upload_ev (EUploadCreate _ _ _ _ _ _) = True"
| "upload_ev ECommit = True"
| "upload_ev ERollback = True"
| "upload_ev _ = False"

text \<open>The calls of segment rendering alone, without concatenation and records.\<close>

fun render_ev :: "event \<Rightarrow> bool" where
  "render_ev (EVeoGenerate _ _) = True"
| "render_ev EVeoPoll = True"
| "render_ev EVeoDownload = True"
| "render_ev (EVeoSave _) = True"
| "render_ev _ = False"


definition VideoAgentResult_ok :: "pystr list \<Rightarrow> VideoAgentResult \<Rightarrow> bool" where
  "VideoAgentResult_ok prompts r =
     (va_segment_count r = int (length prompts) \<and>
      (if va_success r then truthy_str (va_video_path r) \<and> va_error r = None
       else va_video_path r = None \<and> va_error r \<noteq> None))"

text \<open>A computation emits only events of one class: from every state, whatever its outcome,
  it leaves the ledger alone and adds only events of that class to the log.\<close>

definition emits :: "(event \<Rightarrow> bool) \<Rightarrow> 'a io \<Rightarrow> bool" where
  "emits P m = (\<forall>s out s'. m s = (out, s') \<longrightarrow> grows P s s')"

declare digits.simps [simp del]

lemma ret_apply [simp]: "ret x s = (Ret x, s)"
  by (simp add: ret_def)

lemma raise_apply [simp]: "raise e s = (Raise e, s)"
  by (simp add: raise_def)

lemma diverge_apply [simp]: "diverge s = (Diverge, s)"
  by (simp add: diverge_def)

lemma get_now_apply [simp]: "get_now s = (Ret (now s), s)"
  by (simp add: get_now_def)

lemma call_apply [simp]:
  "call ev a s = (case a (now s) of Inl e \<Rightarrow> Raise e | Inr x \<Rightarrow> Ret x, log ev s)"
  by (simp add: call_def)

lemma bind_apply [simp]:
  "bind m f s = (case m s of
      (Ret x, s') \<Rightarrow> f x s'
    | (Raise e, s') \<Rightarrow> (Raise e, s')
    | (Diverge, s') \<Rightarrow> (Diverge, s'))"
  by (simp add: bind_def)

lemma try_except_apply [simp]:
  "try_except m h s = (case m s of (Raise e, s') \<Rightarrow> h e s' | r \<Rightarrow> r)"
  by (simp add: try_except_def)

lemma load_story_history_apply [simp]:
  "load_story_history h s = (Ret (), s\<lparr>gen_story_history := h\<rparr>)"
  by (simp add: load_story_history_def)

lemma get_story_history_apply [simp]:
  "get_story_history s = (Ret (gen_story_history s), s)"
  by (simp add: get_story_history_def)

lemma now_log [simp]: "now (log ev s) = Suc (now s)"
  by (simp add: now_def log_def)

lemma now_gen [simp]: "now (s\<lparr>gen_story_history := h\<rparr>) = now s"
  by (simp add: now_def)

lemma grows_refl [simp]: "grows P s s"
  by (simp add: grows_def)

lemma grows_gen [simp]: "grows P s (s'\<lparr>gen_story_history := h\<rparr>) = grows P s s'"
  by (simp add: grows_def)

lemma grows_gen' [simp]: "grows P (s\<lparr>gen_story_history := h\<rparr>) s' = grows P s s'"
  by (simp add: grows_def)

lemma grows_log: "grows P s s' \<Longrightarrow> P ev \<Longrightarrow> grows P s (log ev s')"
  by (auto simp add: grows_def log_def)

lemma grows_log_l: "grows P (log ev s) s' \<Longrightarrow> P ev \<Longrightarrow> grows P s s'"
  by (auto simp add: grows_def log_def)

lemma grows_trans: "grows P s s1 \<Longrightarrow> grows P s1 s2 \<Longrightarrow> grows P s s2"
  by (auto simp add: grows_def)

lemma grows_mono: "grows P s s' \<Longrightarrow> (\<And>e. P e \<Longrightarrow> Q e) \<Longrightarrow> grows Q s s'"
  by (auto simp add: grows_def list_all_iff)

section \<open>Story stage: parsing fallback and episode numbers\<close>
















text \<open>
  C5. When the generator's response holds no parseable story object (the text is
  missing, or the parser's library calls find nothing or raise), parsing returns the
  placeholder document. The placeholder is the same for every such text apart from its
  story, description and date fields; a non-empty text is embedded, cut to 500
  characters, as story and description. Generation then returns the placeholder, the
  generate skill reports success with it, and a story agent without persistence
  returns a successful result carrying it.
\<close>

theorem parse_story_response_fallback:
  assumes "text = None \<or> (\<exists>t. text = Some t \<and> parse_json w t = None)"
  shows "parse_story_response w cfg text episode stamp = default_story cfg text episode stamp
     \<and> (\<forall>text' stamp' a b c.
          (default_story cfg text episode stamp)\<lparr>s_story := a, s_description := b, s_date := c\<rparr>
        = (default_story cfg text' episode stamp')\<lparr>s_story := a, s_description := b, s_date := c\<rparr>)
     \<and> (\<forall>t. text = Some t \<longrightarrow> t \<noteq> [] \<longrightarrow>
           s_story (parse_story_response w cfg text episode stamp) = take 500 t
         \<and> s_description (parse_story_response w cfg text episode stamp) = take 500 t)
     \<and> (\<forall>s. gemini w (now s) = Inr text \<longrightarrow> episode \<noteq> 0 \<longrightarrow>
           fst (generate_story w cfg (Some episode) s)
             = Ret (default_story cfg text episode (now_iso w (Suc (now s))))
         \<and> fst (GenerateStorySkill_execute w cfg episode None s)
             = Ret (SkillResult_success (default_story cfg text episode (now_iso w (Suc (now s)))))
         \<and> fst (StoryAgent_run w cfg False (Some episode) False s)
             = Ret \<lparr>sa_story = Some (default_story cfg text episode (now_iso w (Suc (now s)))),
                    sa_story_id = None, sa_episode = episode, sa_success = True,
                    sa_error = None\<rparr>)"
proof -
  have p: "\<And>st. parse_story_response w cfg text episode st = default_story cfg text episode st"
    using assms by (auto simp: parse_story_response_def split: option.splits)
  have a: "\<forall>text' stamp' a b c.
          (default_story cfg text episode stamp)\<lparr>s_story := a, s_description := b, s_date := c\<rparr>
        = (default_story cfg text' episode stamp')\<lparr>s_story := a, s_description := b, s_date := c\<rparr>"
    by (simp add: default_story_def)
  have b: "\<forall>t. text = Some t \<longrightarrow> t \<noteq> [] \<longrightarrow>
           s_story (parse_story_response w cfg text episode stamp) = take 500 t
         \<and> s_description (parse_story_response w cfg text episode stamp) = take 500 t"
    using p[of stamp] by (auto simp: default_story_def)
  have e: "\<And>st. s_episode (default_story cfg text episode st) = Some episode"
    by (simp add: default_story_def)
  have c: "\<forall>s. gemini w (now s) = Inr text \<longrightarrow> episode \<noteq> 0 \<longrightarrow>
           fst (generate_story w cfg (Some episode) s)
             = Ret (default_story cfg text episode (now_iso w (Suc (now s))))
         \<and> fst (GenerateStorySkill_execute w cfg episode None s)
             = Ret (SkillResult_success (default_story cfg text episode (now_iso w (Suc (now s)))))
         \<and> fst (StoryAgent_run w cfg False (Some episode) False s)
             = Ret \<lparr>sa_story = Some (default_story cfg text episode (now_iso w (Suc (now s)))),
                    sa_story_id = None, sa_episode = episode, sa_success = True,
                    sa_error = None\<rparr>"
  proof (intro allI impI)
    fix s assume g: "gemini w (now s) = Inr text" and ne: "episode \<noteq> 0"
    let ?d = "default_story cfg text episode (now_iso w (Suc (now s)))"
    obtain s1 where g1: "generate_story w cfg (Some episode) s = (Ret ?d, s1)"
      using g ne by (simp add: generate_story_def p e Let_def)
    have g2: "GenerateStorySkill_execute w cfg episode None s = (Ret (SkillResult_success ?d), s1)"
      by (simp add: GenerateStorySkill_execute_def g1)
    have g3: "StoryAgent_generate_story w cfg False episode (Some []) s = (Ret (Some ?d), s1)"
      using g1
      by (simp add: StoryAgent_generate_story_def execute_skill_def StoryAgent_skills_def
          GenerateStorySkill_execute_def data_if_success_def is_success_def SkillResult_success_def)
    have g4: "fst (StoryAgent_run w cfg False (Some episode) False s)
             = Ret \<lparr>sa_story = Some ?d, sa_story_id = None, sa_episode = episode,
                    sa_success = True, sa_error = None\<rparr>"
      by (simp add: StoryAgent_run_def StoryAgent_get_history_def g3)
    show "fst (generate_story w cfg (Some episode) s) = Ret ?d
         \<and> fst (GenerateStorySkill_execute w cfg episode None s) = Ret (SkillResult_success ?d)
         \<and> fst (StoryAgent_run w cfg False (Some episode) False s)
             = Ret \<lparr>sa_story = Some ?d, sa_story_id = None, sa_episode = episode,
                    sa_success = True, sa_error = None\<rparr>"
      using g1 g2 g4 by simp
  qed
  show ?thesis using p a b c by blast
qed


theorem parse_story_response_fallback_witness:
  "parse_story_response world_unparseable cfg0 (Some (S ''no story'')) 4 (S ''2024-01-02'')
     = default_story cfg0 (Some (S ''no story'')) 4 (S ''2024-01-02'')
   \<and> s_story (parse_story_response world_unparseable cfg0 (Some (S ''no story'')) 4 (S ''2024-01-02''))
       = S ''no story''
   \<and> fst (StoryAgent_run world_unparseable cfg0 False (Some 4) False sys0)
       = Ret \<lparr>sa_story = Some (default_story cfg0 (Some (S ''no story'')) 4 (S ''2024-01-02'')),
              sa_story_id = None, sa_episode = 4, sa_success = True, sa_error = None\<rparr>"
proof -
  have h: "Some (S ''no story'') = None \<or>
      (\<exists>t. Some (S ''no story'') = Some t \<and> parse_json world_unparseable t = None)"
    by (simp add: world_unparseable_def)
  have g: "gemini world_unparseable (now sys0) = Inr (Some (S ''no story''))"
    by (simp add: world_unparseable_def)
  have n: "now_iso world_unparseable (Suc (now sys0)) = S ''2024-01-02''"
    by (simp add: world_unparseable_def world_ok_def)
  note t = parse_story_response_fallback [OF h, of cfg0 4 "S ''2024-01-02''"]
  have c1: "parse_story_response world_unparseable cfg0 (Some (S ''no story'')) 4 (S ''2024-01-02'')
     = default_story cfg0 (Some (S ''no story'')) 4 (S ''2024-01-02'')"
    using t by (rule conjunct1)
  have ne: "S ''no story'' \<noteq> []"
    by (simp add: S_def)
  have c2: "s_story (parse_story_response world_unparseable cfg0 (Some (S ''no story'')) 4
              (S ''2024-01-02'')) = take 500 (S ''no story'')"
    using t [THEN conjunct2, THEN conjunct2, THEN conjunct1, rule_format, OF refl ne]
    by (rule conjunct1)
  have c3: "fst (StoryAgent_run world_unparseable cfg0 False (Some 4) False sys0)
       = Ret \<lparr>sa_story = Some (default_story cfg0 (Some (S ''no story'')) 4
                 (now_iso world_unparseable (Suc (now sys0)))),
              sa_story_id = None, sa_episode = 4, sa_success = True, sa_error = None\<rparr>"
    using t [THEN conjunct2, THEN conjunct2, THEN conjunct2, rule_format, OF g]
    by simp
  have tk: "take 500 (S ''no story'') = S ''no story''"
    by (simp add: S_def)
  show ?thesis
    using c1 c2 c3 by (simp only: n tk simp_thms)
qed


section \<open>Video stage: fallback and concatenation\<close>

lemma wait_done_post:
  "wait_done w fuel opn s = (out, s') \<Longrightarrow> grows render_ev s s'"
proof (induction fuel arbitrary: opn s)
  case 0
  then show ?case by (auto split: if_splits)
next
  case (Suc fuel)
  show ?case
  proof (cases "op_done opn")
    case True
    with Suc.prems show ?thesis by auto
  next
    case False
    show ?thesis
    proof (cases "veo_get w (now s)")
      case (Inl e)
      with False Suc.prems show ?thesis by (auto intro: grows_log)
    next
      case (Inr x)
      with False Suc.prems have "wait_done w fuel x (log EVeoPoll s) = (out, s')" by simp
      from Suc.IH[OF this] show ?thesis by (rule grows_log_l) simp
    qed
  qed
qed

lemma path_join_nonempty [simp]: "path_join d f \<noteq> []"
  by (simp add: path_join_def)

lemma mock_path_nonempty [simp]: "mock_path w cfg t \<noteq> []"
  by (simp add: mock_path_def)

lemma veo_render_post:
  "veo_render w cfg p d s = (out, s') \<Longrightarrow>
     (\<forall>r. out = Ret r \<longrightarrow> (\<exists>u. vr_video_url r = Some u \<and> u \<noteq> []) \<and>
          vr_status r = S ''completed'' \<and> \<not> vr_mock r) \<and> grows render_ev s s'"
  unfolding veo_render_def
  by (auto simp: Let_def dest!: wait_done_post intro!: grows_log intro: grows_log_l
      elim: grows_trans
      split: if_splits sum.splits prod.splits outcome.splits)

lemma generate_video_post:
  "generate_video w cfg p d s = (out, s') \<Longrightarrow>
     (out = Diverge \<or> (\<exists>r u. out = Ret r \<and> vr_video_url r = Some u \<and> u \<noteq> [] \<and>
          vr_status r = S ''completed'')) \<and> grows render_ev s s'"
  unfolding generate_video_def generate_mock_video_def
  by (auto simp: mock_result_def mock_path_def dest!: veo_render_post
      split: prod.splits outcome.splits)



lemma render_all_post:
  "render_all w cfg ps d acc s = (out, s') \<Longrightarrow>
     (out = Diverge \<or> (\<exists>new. out = Ret (acc @ new) \<and> length new = length ps \<and> [] \<notin> set new))
     \<and> grows render_ev s s'"
proof (induction ps arbitrary: acc s)
  case Nil
  then show ?case by auto
next
  case (Cons p ps)
  obtain o1 s1 where g: "generate_video w cfg p d s = (o1, s1)"
    by (cases "generate_video w cfg p d s")
  note gp = generate_video_post[OF g]
  show ?case
  proof (cases o1)
    case (Ret r)
    with gp obtain u where u: "vr_video_url r = Some u" "u \<noteq> []" "vr_status r = S ''completed''"
      by auto
    from Cons.prems g Ret u
    have "render_all w cfg ps d (acc @ [u]) s1 = (out, s')" by simp
    from Cons.IH[OF this] gp Ret u
    show ?thesis
      by (auto elim: grows_trans)
  next
    case (Raise e)
    with gp show ?thesis by auto
  next
    case Diverge
    with Cons.prems g gp show ?thesis by auto
  qed
qed









lemma wait_done_done [simp]: "op_done opn \<Longrightarrow> wait_done w fuel opn = ret opn"
  by (cases fuel) simp_all







section \<open>Execution ledger: timestamps, status and links\<close>

lemma S_inj [simp]: "(S a = S b) = (a = b)"
  by (simp add: S_def inj_on_def)

lemma S_empty [simp]: "(S a = []) = (a = [])"
  by (simp add: S_def)

lemma truthy_int_iff: "truthy_int x = (\<exists>y. x = Some y \<and> y \<noteq> 0)"
  by (cases x) auto

lemma truthy_str_iff: "truthy_str x = (\<exists>y. x = Some y \<and> y \<noteq> [])"
  by (cases x) auto

text \<open>
  C3, as the spec states it, fails: an update at a moment before \<^verbatim>\<open>started_at\<close>
  stores a negative duration, and a second update with a final status stamps the
  completion time and the duration again.
\<close>

theorem update_duration_counterexample:
  "we_duration_seconds (update_row 4000000 failed_args row0) = Some (- 6)
   \<and> we_completed_at (update_row 30000000 failed_args (update_row 20000000 failed_args row0))
       \<noteq> we_completed_at (update_row 20000000 failed_args row0)
   \<and> we_duration_seconds (update_row 20000000 failed_args row0) = Some 10
   \<and> we_duration_seconds (update_row 30000000 failed_args (update_row 20000000 failed_args row0))
       = Some 20"
  by (simp add: update_row_def failed_args_def no_args_def row0_def Let_def trunc_div_def
      instant_def set_str_def set_int_def)

text \<open>
  C3, amended. An update whose status argument is completed or failed stores the
  current UTC time as completion time and, in the same update, when the row has a start
  time, the whole seconds (truncated towards zero) between the two as duration, a start
  time without timezone being read as UTC; the duration is not negative when the start
  is not later than the update. Without a start time the duration is left as it is.
  Any other update leaves completion time and duration as they are, and no update
  changes the start time. The repository's update of a row found by its id is this
  update at the current clock reading.
\<close>

theorem update_terminal_stamps:
  "((u_status a = Some (S ''completed'') \<or> u_status a = Some (S ''failed'')) \<longrightarrow>
      we_completed_at (update_row utc a r) = Some \<lparr>wall = utc, tzinfo = Some 0\<rparr>
      \<and> (\<forall>st. we_started_at r = Some st \<longrightarrow>
            we_duration_seconds (update_row utc a r) =
              Some (trunc_div (utc - (if tzinfo st = None then wall st else instant st)) 1000000)
            \<and> ((if tzinfo st = None then wall st else instant st) \<le> utc \<longrightarrow>
                  0 \<le> trunc_div (utc - (if tzinfo st = None then wall st else instant st)) 1000000))
      \<and> (we_started_at r = None \<longrightarrow>
            we_duration_seconds (update_row utc a r) = we_duration_seconds r))
   \<and> (\<not> (u_status a = Some (S ''completed'') \<or> u_status a = Some (S ''failed'')) \<longrightarrow>
        we_completed_at (update_row utc a r) = we_completed_at r
        \<and> we_duration_seconds (update_row utc a r) = we_duration_seconds r)
   \<and> we_started_at (update_row utc a r) = we_started_at r
   \<and> (\<forall>s. filter (\<lambda>(i, q). i = eid) (executions s) = [(eid, r)] \<longrightarrow>
         fst (WorkflowExecutionRepository_update w eid a s)
           = Ret (Some (update_row (utc_now w (now s)) a r)))"
  by (auto simp: update_row_def Let_def trunc_div_def instant_def
      WorkflowExecutionRepository_update_def split: option.splits)


text \<open>
  C4, as the spec states it, fails: an update may put a completed row back to running,
  and an update with another id replaces a link that was set.
\<close>

theorem update_reversal_counterexample:
  "we_status (update_row 0 (no_args\<lparr>u_status := Some (S ''running'')\<rparr>) row_done) = S ''running''
   \<and> we_story_id (update_row 0 (no_args\<lparr>u_story_id := Some 2\<rparr>) row_done) = Some 2"
  by (simp add: update_row_def no_args_def row_done_def row0_def Let_def set_str_def set_int_def)

lemma update_row_fields:
  "we_status (update_row utc a r) = (if truthy_str (u_status a) then or_str (u_status a) [] else we_status r)"
  "we_story_id (update_row utc a r) = (if truthy_int (u_story_id a) then u_story_id a else we_story_id r)"
  "we_video_generation_id (update_row utc a r) =
     (if truthy_int (u_video_generation_id a) then u_video_generation_id a else we_video_generation_id r)"
  "we_youtube_upload_id (update_row utc a r) =
     (if truthy_int (u_youtube_upload_id a) then u_youtube_upload_id a else we_youtube_upload_id r)"
  by (auto simp: update_row_def Let_def set_int_def split: option.splits)

lemma apply_updates_Cons [simp]:
  "apply_updates ((utc, a) # us) r = apply_updates us (update_row utc a r)"
  by (simp add: apply_updates_def)

lemma apply_updates_Nil [simp]: "apply_updates [] r = r"
  by (simp add: apply_updates_def)

lemma links_kept:
  "(we_story_id r \<noteq> None \<longrightarrow> we_story_id (apply_updates us r) \<noteq> None)
   \<and> (we_video_generation_id r \<noteq> None \<longrightarrow> we_video_generation_id (apply_updates us r) \<noteq> None)
   \<and> (we_youtube_upload_id r \<noteq> None \<longrightarrow> we_youtube_upload_id (apply_updates us r) \<noteq> None)"
proof (induction us arbitrary: r)
  case Nil
  show ?case by simp
next
  case (Cons u us)
  obtain utc a where u: "u = (utc, a)" by (cases u)
  have "we_story_id r \<noteq> None \<Longrightarrow> we_story_id (update_row utc a r) \<noteq> None"
       "we_video_generation_id r \<noteq> None \<Longrightarrow> we_video_generation_id (update_row utc a r) \<noteq> None"
       "we_youtube_upload_id r \<noteq> None \<Longrightarrow> we_youtube_upload_id (update_row utc a r) \<noteq> None"
    by (auto simp: update_row_fields truthy_int_iff split: if_splits)
  with Cons.IH[of "update_row utc a r"] show ?case
    by (simp add: u)
qed

lemma status_kept:
  "\<forall>(utc, a) \<in> set us. \<forall>st. u_status a = Some st \<longrightarrow> st \<noteq> [] \<longrightarrow> terminal st \<Longrightarrow>
     terminal (we_status r) \<Longrightarrow> terminal (we_status (apply_updates us r))"
proof (induction us arbitrary: r)
  case Nil
  then show ?case by simp
next
  case (Cons u us)
  obtain utc a where u: "u = (utc, a)" by (cases u)
  have "terminal (we_status (update_row utc a r))"
    using Cons.prems by (cases "u_status a") (auto simp: update_row_fields u)
  with Cons show ?case by (simp add: u)
qed

text \<open>
  C4, amended. Over any sequence of updates a link that is set stays set (it is never
  cleared); an update changes a link only when it is given a non-zero id, and the status
  only when it is given a non-empty one. When every status given in the sequence is
  completed or failed, a row that has such a status keeps one.
\<close>

theorem update_links_never_cleared:
  "(we_story_id r \<noteq> None \<longrightarrow> we_story_id (apply_updates us r) \<noteq> None)
   \<and> (we_video_generation_id r \<noteq> None \<longrightarrow> we_video_generation_id (apply_updates us r) \<noteq> None)
   \<and> (we_youtube_upload_id r \<noteq> None \<longrightarrow> we_youtube_upload_id (apply_updates us r) \<noteq> None)
   \<and> (\<not> truthy_int (u_story_id a) \<longrightarrow> we_story_id (update_row utc a r) = we_story_id r)
   \<and> (\<not> truthy_int (u_video_generation_id a) \<longrightarrow>
         we_video_generation_id (update_row utc a r) = we_video_generation_id r)
   \<and> (\<not> truthy_int (u_youtube_upload_id a) \<longrightarrow>
         we_youtube_upload_id (update_row utc a r) = we_youtube_upload_id r)
   \<and> (\<not> truthy_str (u_status a) \<longrightarrow> we_status (update_row utc a r) = we_status r)
   \<and> ((\<forall>(utc, a) \<in> set us. \<forall>st. u_status a = Some st \<longrightarrow> st \<noteq> [] \<longrightarrow> terminal st) \<longrightarrow>
        terminal (we_status r) \<longrightarrow> terminal (we_status (apply_updates us r)))"
  using links_kept[of r us] status_kept[of us r]
  by (simp add: update_row_fields)


theorem update_terminal_stamps_witness:
  "(u_status failed_args = Some (S ''completed'') \<or> u_status failed_args = Some (S ''failed''))
   \<and> we_completed_at (update_row 20000000 failed_args row0)
        = Some \<lparr>wall = 20000000, tzinfo = Some 0\<rparr>
   \<and> we_duration_seconds (update_row 20000000 failed_args row0) = Some 10
   \<and> we_completed_at (update_row 20000000 no_args row0) = None
   \<and> fst (WorkflowExecutionRepository_update world_ok 1 failed_args
             (sys0\<lparr>executions := [(1, row0)]\<rparr>))
        = Ret (Some (update_row 5000000 failed_args row0))"
proof -
  have h: "u_status failed_args = Some (S ''completed'') \<or> u_status failed_args = Some (S ''failed'')"
    by (simp add: failed_args_def no_args_def)
  note t = update_terminal_stamps [of failed_args 20000000 row0 1 world_ok]
  note t1 = t [THEN conjunct1, THEN mp, OF h]
  have c1: "we_completed_at (update_row 20000000 failed_args row0)
        = Some \<lparr>wall = 20000000, tzinfo = Some 0\<rparr>"
    using t1 by (rule conjunct1)
  have st: "we_started_at row0 = Some \<lparr>wall = 10000000, tzinfo = Some 0\<rparr>"
    by (simp add: row0_def)
  have v: "trunc_div (20000000 -
      (if tzinfo \<lparr>wall = 10000000, tzinfo = Some 0\<rparr> = None
       then wall \<lparr>wall = 10000000, tzinfo = Some 0\<rparr>
       else instant \<lparr>wall = 10000000, tzinfo = Some 0\<rparr>)) 1000000 = 10"
    by (simp add: trunc_div_def instant_def)
  have c2: "we_duration_seconds (update_row 20000000 failed_args row0) = Some 10"
    using t1 [THEN conjunct2, THEN conjunct1, rule_format, OF st, THEN conjunct1]
    unfolding v .
  have n: "\<not> (u_status no_args = Some (S ''completed'') \<or> u_status no_args = Some (S ''failed''))"
    by (simp add: no_args_def)
  have c3: "we_completed_at (update_row 20000000 no_args row0) = None"
    using update_terminal_stamps [of no_args 20000000 row0 1 world_ok, THEN conjunct2, THEN conjunct1,
        THEN mp, OF n, THEN conjunct1]
    by (simp add: row0_def)
  have f: "filter (\<lambda>(i, q). i = 1) (executions (sys0\<lparr>executions := [(1, row0)]\<rparr>)) = [(1, row0)]"
    by simp
  have u: "utc_now world_ok (now (sys0\<lparr>executions := [(1, row0)]\<rparr>)) = 5000000"
    by (simp add: world_ok_def)
  have c4: "fst (WorkflowExecutionRepository_update world_ok 1 failed_args
             (sys0\<lparr>executions := [(1, row0)]\<rparr>))
        = Ret (Some (update_row 5000000 failed_args row0))"
    using t [THEN conjunct2, THEN conjunct2, THEN conjunct2, rule_format, OF f]
    unfolding u .
  show ?thesis
    by (intro conjI h c1 c2 c3 c4)
qed

theorem update_links_never_cleared_witness:
  "we_story_id row_done \<noteq> None
   \<and> we_story_id (apply_updates updates0 row_done) \<noteq> None
   \<and> terminal (we_status row_done)
   \<and> terminal (we_status (apply_updates updates0 row_done))
   \<and> we_story_id (update_row 30000000 (no_args\<lparr>u_story_id := Some 0\<rparr>) row_done) = Some 1"
proof -
  have a: "we_story_id row_done \<noteq> None"
    by (simp add: row_done_def)
  have b: "terminal (we_status row_done)"
    by (simp add: row_done_def terminal_def)
  have c: "\<forall>(utc, a) \<in> set updates0. \<forall>st. u_status a = Some st \<longrightarrow> st \<noteq> [] \<longrightarrow> terminal st"
    by (simp add: updates0_def failed_args_def no_args_def terminal_def)
  have d: "\<not> truthy_int (u_story_id (no_args\<lparr>u_story_id := Some 0\<rparr>))"
    by simp
  note t = update_links_never_cleared [of row_done updates0 "no_args\<lparr>u_story_id := Some 0\<rparr>" 30000000]
  have c1: "we_story_id (apply_updates updates0 row_done) \<noteq> None"
    using t [THEN conjunct1, THEN mp, OF a] .
  have c2: "terminal (we_status (apply_updates updates0 row_done))"
    using t [THEN conjunct2, THEN conjunct2, THEN conjunct2, THEN conjunct2, THEN conjunct2,
        THEN conjunct2, THEN conjunct2, THEN mp, OF c, THEN mp, OF b] .
  have c3: "we_story_id (update_row 30000000 (no_args\<lparr>u_story_id := Some 0\<rparr>) row_done) = Some 1"
    using t [THEN conjunct2, THEN conjunct2, THEN conjunct2, THEN conjunct1, THEN mp, OF d]
    by (simp add: row_done_def)
  show ?thesis
    by (intro conjI a c1 b c2 c3)
qed


section \<open>Workflow: skipping the video stage\<close>

lemma S_neq_Nil [simp]: "S (c # cs) \<noteq> []"
  by (simp add: S_def)

text \<open>
  C8. With the skip switch on and a test video path configured, the generate-videos
  node, entered as the graph enters it (the story edge chose to continue, so there is a
  story and no error), returns the state with the final video path set to the
  configured path, the video record id empty and the step name of the node; the only
  event is the node's own progress line, so neither the video agent nor the renderer is
  called. The edge after the node then leads to the upload node, and the graph goes on
  there. The switch is read inside the node: the graph has no node of its own for it.
\<close>

theorem skip_video_generation_uses_test_path:
  assumes "skip_video_generation cfg" and "test_video_path cfg \<noteq> []"
      and "next_node N_generate_story state = Some N_generate_videos"
  shows "story state \<noteq> None \<and> \<not> truthy_str (error state)
     \<and> generate_videos_node w cfg use_db state s =
          (Ret (state\<lparr>final_video_path := Some (test_video_path cfg),
                       video_generation_id := None,
                       current_step := S ''generate_videos''\<rparr>),
           log (ENode (S ''generate_videos'')) s)
     \<and> next_node N_generate_videos
          (state\<lparr>final_video_path := Some (test_video_path cfg),
                  video_generation_id := None,
                  current_step := S ''generate_videos''\<rparr>) = Some N_upload_to_youtube
     \<and> run_from w cfg use_db (Suc limit) N_generate_videos state s =
          run_from w cfg use_db limit N_upload_to_youtube
            (state\<lparr>final_video_path := Some (test_video_path cfg),
                    video_generation_id := None,
                    current_step := S ''generate_videos''\<rparr>)
            (log (ENode (S ''generate_videos'')) s)"
proof -
  have st: "story state \<noteq> None" and er: "\<not> truthy_str (error state)"
    using assms(3)
    by (auto simp: should_continue_after_story_def route_def split: if_splits)
  let ?st' = "state\<lparr>final_video_path := Some (test_video_path cfg),
                       video_generation_id := None,
                       current_step := S ''generate_videos''\<rparr>"
  have node: "generate_videos_node w cfg use_db state s =
          (Ret ?st', log (ENode (S ''generate_videos'')) s)"
    using assms(1,2) st by (auto simp: generate_videos_node_def)
  have nxt: "next_node N_generate_videos ?st' = Some N_upload_to_youtube"
    using assms(2) er by (simp add: should_continue_after_videos_def route_def)
  have "run_from w cfg use_db (Suc limit) N_generate_videos state s =
          run_from w cfg use_db limit N_upload_to_youtube ?st' (log (ENode (S ''generate_videos'')) s)"
    using node nxt by simp
  with st er node nxt show ?thesis by blast
qed

theorem skip_video_generation_uses_test_path_witness:
  "skip_video_generation cfg_skip \<and> test_video_path cfg_skip \<noteq> []
   \<and> next_node N_generate_story state_with_story = Some N_generate_videos
   \<and> generate_videos_node world_ok cfg_skip True state_with_story sys0 =
          (Ret (state_with_story\<lparr>final_video_path := Some (S ''/tmp/test.mp4''),
                       video_generation_id := None,
                       current_step := S ''generate_videos''\<rparr>),
           log (ENode (S ''generate_videos'')) sys0)"
proof -
  have a: "skip_video_generation cfg_skip"
    by (simp add: cfg_skip_def)
  have b: "test_video_path cfg_skip \<noteq> []"
    by (simp add: cfg_skip_def)
  have c: "next_node N_generate_story state_with_story = Some N_generate_videos"
    by (simp add: state_with_story_def initial_state_def should_continue_after_story_def
        route_def)
  have p: "test_video_path cfg_skip = S ''/tmp/test.mp4''"
    by (simp add: cfg_skip_def)
  have d: "generate_videos_node world_ok cfg_skip True state_with_story sys0 =
          (Ret (state_with_story\<lparr>final_video_path := Some (S ''/tmp/test.mp4''),
                       video_generation_id := None,
                       current_step := S ''generate_videos''\<rparr>),
           log (ENode (S ''generate_videos'')) sys0)"
    using skip_video_generation_uses_test_path [OF a b c, of world_ok True sys0, THEN conjunct2, THEN conjunct2,
        THEN conjunct1]
    unfolding p .
  show ?thesis
    by (intro conjI a b c d)
qed


section \<open>Video and upload agents: events and results\<close>

text \<open>The skills and methods of the video agent touch only the rendering services, the
  merge and the video record; none of them writes the execution ledger. The rendering skill
  never raises, and the two record skills never run forever.\<close>

lemma render_ev_video_ev: "render_ev e \<Longrightarrow> video_ev e"
  by (cases e) auto

lemma merge_videos_post:
  "merge_videos w cfg vs f s = (out, s') \<Longrightarrow> out \<noteq> Diverge \<and> grows video_ev s s'"
  by (auto simp: merge_videos_def Let_def intro!: grows_log split: sum.splits)

lemma generate_video_sequence_post:
  "generate_video_sequence w cfg ps d f s = (out, s') \<Longrightarrow> grows video_ev s s'"
  unfolding generate_video_sequence_def
  by (auto dest!: render_all_post merge_videos_post
      elim: grows_trans intro: grows_mono[OF _ render_ev_video_ev] grows_trans[OF grows_mono[OF _ render_ev_video_ev]]
      split: prod.splits outcome.splits if_splits list.splits)

lemma GenerateVideoSequenceSkill_post:
  "GenerateVideoSequenceSkill_execute w cfg ps d f s = (out, s') \<Longrightarrow>
     (\<forall>e. out \<noteq> Raise e) \<and> grows video_ev s s'"
  unfolding GenerateVideoSequenceSkill_execute_def
  by (auto dest!: generate_video_sequence_post split: prod.splits outcome.splits)

lemma SaveVideoGenerationSkill_post:
  "SaveVideoGenerationSkill_execute w sid st s = (out, s') \<Longrightarrow>
     out \<noteq> Diverge \<and> grows video_ev s s'"
  by (auto simp: SaveVideoGenerationSkill_execute_def intro!: grows_log split: sum.splits)

lemma UpdateVideoGenerationSkill_post:
  "UpdateVideoGenerationSkill_execute w i st p e s = (out, s') \<Longrightarrow>
     out \<noteq> Diverge \<and> grows video_ev s s'"
  by (auto simp: UpdateVideoGenerationSkill_execute_def intro!: grows_log split: sum.splits)

lemma VideoAgent_generate_video_sequence_post:
  "VideoAgent_generate_video_sequence w cfg db ps d f s = (out, s') \<Longrightarrow>
     (\<forall>e. out \<noteq> Raise e) \<and> grows video_ev s s'"
  by (auto simp: VideoAgent_generate_video_sequence_def execute_skill_def VideoAgent_skills_def
        default_filename_def
      dest!: GenerateVideoSequenceSkill_post
      split: option.splits prod.splits outcome.splits if_splits)

lemma VideoAgent_save_generation_record_post:
  "VideoAgent_save_generation_record w db sid st s = (out, s') \<Longrightarrow>
     out \<noteq> Diverge \<and> grows video_ev s s'"
  by (auto simp: VideoAgent_save_generation_record_def execute_skill_def VideoAgent_skills_def
      dest!: SaveVideoGenerationSkill_post
      split: option.splits prod.splits outcome.splits if_splits)

lemma VideoAgent_update_generation_record_post:
  "VideoAgent_update_generation_record w db i st p e s = (out, s') \<Longrightarrow>
     out \<noteq> Diverge \<and> grows video_ev s s'"
  by (auto simp: VideoAgent_update_generation_record_def execute_skill_def VideoAgent_skills_def
      dest!: UpdateVideoGenerationSkill_post
      split: option.splits prod.splits outcome.splits if_splits)

text \<open>The same, compositionally: the class of events is preserved by sequencing and by
  exception handlers, so both agents' \<open>run\<close> emit only events of their own stage whatever
  the outcome, including when an exception leaves them.\<close>

lemma emitsI: "(\<And>s out s'. m s = (out, s') \<Longrightarrow> grows P s s') \<Longrightarrow> emits P m"
  by (simp add: emits_def)

lemma emitsD: "emits P m \<Longrightarrow> m s = (out, s') \<Longrightarrow> grows P s s'"
  by (simp add: emits_def)

lemma emits_ret [intro!, simp]: "emits P (ret x)"
  by (simp add: emits_def)

lemma emits_raise [intro!, simp]: "emits P (raise e)"
  by (simp add: emits_def)

lemma emits_get_now [intro!, simp]: "emits P get_now"
  by (simp add: emits_def)

lemma emits_call [intro!]: "P ev \<Longrightarrow> emits P (call ev a)"
  by (auto simp: emits_def intro: grows_log)

lemma emits_bind [intro!]: "emits P m \<Longrightarrow> (\<And>x. emits P (f x)) \<Longrightarrow> emits P (bind m f)"
  unfolding emits_def
  by (auto split: prod.splits outcome.splits) (blast intro: grows_trans)

lemma emits_try [intro!]: "emits P m \<Longrightarrow> (\<And>e. emits P (h e)) \<Longrightarrow> emits P (try_except m h)"
  unfolding emits_def
  by (auto split: prod.splits outcome.splits) (blast intro: grows_trans)

lemma emits_execute_skill [intro!]: "emits P m \<Longrightarrow> emits P (execute_skill reg name m)"
  by (simp add: execute_skill_def)

lemma emits_when_id [intro!]: "(\<And>i. emits P (f i)) \<Longrightarrow> emits P (when_id v f)"
  by (auto simp: when_id_def split: option.splits)

lemma emits_sequence_skill [intro!]:
  "emits video_ev (GenerateVideoSequenceSkill_execute w cfg ps d f)"
  by (rule emitsI) (simp add: GenerateVideoSequenceSkill_post)

lemma emits_video_agent: "emits video_ev (VideoAgent_run w cfg db ps sid d f)"
  unfolding VideoAgent_run_def VideoAgent_handler_def
  by (auto simp: default_filename_def VideoAgent_update_generation_record_def
        VideoAgent_save_generation_record_def VideoAgent_generate_video_sequence_def
        SaveVideoGenerationSkill_execute_def UpdateVideoGenerationSkill_execute_def
      split: option.splits sum.splits)

lemma emits_youtube_agent: "emits upload_ev (YouTubeAgent_run w db p t d tags pr sid vg)"
  unfolding YouTubeAgent_run_def
  by (auto simp: YouTubeAgent_upload_video_def YouTubeAgent_save_upload_record_def
        UploadVideoSkill_execute_def SaveYouTubeUploadSkill_execute_def
      split: option.splits sum.splits)

text \<open>Whenever the video agent returns, its result is well-formed and counts the prompts
  it was given.\<close>

lemma VideoAgent_run_result:
  "VideoAgent_run w cfg db ps sid d f s = (Ret r, s') \<Longrightarrow> VideoAgentResult_ok ps r"
  unfolding VideoAgent_run_def VideoAgent_handler_def
  by (auto simp: VideoAgentResult_ok_def VideoAgent_failed_def
      split: option.splits prod.splits outcome.splits if_splits sum.splits)

text \<open>The upload agent's handler makes no call: \<open>run\<close> returns a well-formed result from
  every state of the environment.\<close>

lemma UploadVideoSkill_returns:
  "\<exists>r s'. UploadVideoSkill_execute w p t d tags pr s = (Ret r, s')"
  by (auto simp: UploadVideoSkill_execute_def split: sum.splits)

lemma SaveYouTubeUploadSkill_halts:
  "fst (SaveYouTubeUploadSkill_execute w sid vid url t vg pr s) \<noteq> Diverge"
  by (auto simp: SaveYouTubeUploadSkill_execute_def split: sum.splits)

lemma YouTubeAgent_upload_video_returns:
  "\<exists>r s'. YouTubeAgent_upload_video w db p t d tags pr s = (Ret r, s')"
  using UploadVideoSkill_returns[of w p t d tags pr s]
  by (auto simp: YouTubeAgent_upload_video_def execute_skill_def YouTubeAgent_skills_def)

lemma YouTubeAgent_save_upload_record_halts:
  "fst (YouTubeAgent_save_upload_record w db sid vid url t vg pr s) \<noteq> Diverge"
  using SaveYouTubeUploadSkill_halts[of w sid vid url t vg pr s]
  by (auto simp: YouTubeAgent_save_upload_record_def execute_skill_def YouTubeAgent_skills_def
      split: prod.splits outcome.splits)

lemma YouTubeAgent_run_result:
  "\<exists>r s'. YouTubeAgent_run w db p t d tags pr sid vg s = (Ret r, s') \<and>
      (if ya_success r then ya_error r = None else ya_error r \<noteq> None)"
proof -
  obtain u s1 where u: "YouTubeAgent_upload_video w db p t d tags pr s = (Ret u, s1)"
    using YouTubeAgent_upload_video_returns by blast
  show ?thesis
  proof (cases u)
    case None
    with u show ?thesis by (simp add: YouTubeAgent_run_def YouTubeAgent_failed_def)
  next
    case (Some x)
    show ?thesis
    proof (cases "\<exists>i. sid = Some i \<and> i \<noteq> 0 \<and> db")
      case True
      then obtain i where i: "sid = Some i" "i \<noteq> 0" "db" by blast
      obtain o2 s2 where r: "YouTubeAgent_save_upload_record w db i (yu_video_id x)
                               (yu_url x) (yu_title x) vg pr s1 = (o2, s2)"
        by (cases "YouTubeAgent_save_upload_record w db i (yu_video_id x)
                               (yu_url x) (yu_title x) vg pr s1")
      with YouTubeAgent_save_upload_record_halts[of w db i "yu_video_id x" "yu_url x" "yu_title x" vg pr s1]
      have "o2 \<noteq> Diverge" by simp
      then show ?thesis
        using u Some i r by (cases o2) (simp_all add: YouTubeAgent_run_def YouTubeAgent_failed_def)
    next
      case False
      then show ?thesis
        using u Some by (cases sid) (auto simp add: YouTubeAgent_run_def)
    qed
  qed
qed


section \<open>Exceptions that escape: skills, the video agent and the ledger status\<close>

lemmas skill_defs = execute_skill_def data_if_success_def is_success_def
  SkillResult_success_def SkillResult_failed_def fmsg_def Let_def

lemmas story_eval = StoryAgent_run_def StoryAgent_get_history_def StoryAgent_generate_story_def
  StoryAgent_save_story_def StoryAgent_skills_def
  GetStoryHistorySkill_execute_def GenerateStorySkill_execute_def SaveStorySkill_execute_def
  generate_story_def parse_story_response_def

lemmas video_eval = generate_video_sequence_def generate_video_def veo_render_def
  generate_mock_video_def mock_result_def merge_videos_def
  GenerateVideoSequenceSkill_execute_def SaveVideoGenerationSkill_execute_def
  UpdateVideoGenerationSkill_execute_def VideoAgent_generate_video_sequence_def
  VideoAgent_save_generation_record_def VideoAgent_update_generation_record_def
  VideoAgent_run_def VideoAgent_handler_def VideoAgent_failed_def VideoAgent_skills_def
  default_filename_def when_id_def

lemmas upload_eval = UploadVideoSkill_execute_def SaveYouTubeUploadSkill_execute_def
  YouTubeAgent_skills_def YouTubeAgent_upload_video_def YouTubeAgent_save_upload_record_def
  YouTubeAgent_failed_def YouTubeAgent_run_def

lemmas workflow_eval = load_history_node_def generate_story_node_def generate_videos_node_def
  upload_to_youtube_node_def save_history_node_def handle_error_node_def node_failed_def
  should_continue_after_story_def should_continue_after_videos_def
  should_continue_after_upload_def route_def ainvoke_def initial_state_def run_def
  WorkflowExecutionRepository_create_def WorkflowExecutionRepository_update_def
  next_id_def update_row_def set_str_def set_int_def no_args_def

lemmas world_eval = world_ok_def world_db_timeout_def cfg0_def sys0_def story0_def now_def log_def

lemma run_from_numeral:
  "run_from w cfg u (numeral k) n st =
     bind (node_fn w cfg u n st) (\<lambda>st'.
       case next_node n st' of
         None \<Rightarrow> ret st'
       | Some n' \<Rightarrow> run_from w cfg u (pred_numeral k) n' st')"
  by (simp add: numeral_eq_Suc)

lemma SkillResult_factories:
  "is_success (SkillResult_success p) \<and> sr_data (SkillResult_success p) = Some p \<and>
   sr_error (SkillResult_success p) = None \<and>
   \<not> is_success (SkillResult_failed m) \<and> sr_error (SkillResult_failed m) = Some m \<and>
   sr_data (SkillResult_failed m) = None"
  by (simp add: is_success_def SkillResult_success_def SkillResult_failed_def)

text \<open>
  C9. The skill that updates the video record, executed when the statement on the
  record raises and the rollback in the skill's handler raises too: the rollback's
  exception leaves \<open>execute\<close>, and no step result is returned.
\<close>

theorem UpdateVideoGenerationSkill_rollback_escapes:
  "fst (UpdateVideoGenerationSkill_execute world_db_timeout 7 (Some (S ''completed''))
          (Some (S ''/out/v.mp4'')) None sys0) = Raise (Exception [])"
  by (simp add: video_eval skill_defs world_eval)

text \<open>
  C10. The video agent, run with a story id on a session whose record update and
  rollback raise: the exception of the rollback reaches the agent's handler, the handler
  updates the record again outside any \<^verbatim>\<open>try\<close>, and the second exception leaves
  \<open>run\<close>.
\<close>

theorem VideoAgent_run_propagates:
  "fst (VideoAgent_run world_db_timeout cfg0 True [S ''a''] (Some 1) 5 None sys0)
     = Raise (Exception [])"
  by (simp add: video_eval skill_defs world_eval)


text \<open>
  C1. A whole run in that environment: the story stage succeeds, the video stage fails
  with the escaped exception, whose message is empty. The final state has no video path
  and no upload result, its step is the error step and its error is the empty string;
  the run's ledger row ends with status completed.
\<close>

theorem run_marks_failed_video_stage_completed:
  "(case run world_db_timeout cfg0 None False sys0 of
      (Ret final, s') \<Rightarrow>
         final_video_path final = None \<and> upload_result final = None \<and>
         error final = Some [] \<and> current_step final = S ''error'' \<and>
         map (\<lambda>(i, r). we_status r) (executions s') = [S ''completed'']
    | _ \<Rightarrow> False)"
  by (simp add: workflow_eval story_eval video_eval upload_eval skill_defs world_eval
      msg_story_failed_def msg_video_failed_def run_from_numeral)

end
